theory Spec2Isabelle
  imports Complex_Main "HOL-Library.AList"
begin

section \<open>JavaScript strings\<close>

text \<open>
  A JavaScript string is a sequence of UTF-16 code units; a code unit is written as its
  number. \<open>lit\<close> turns an ASCII literal into such a string. An object that the program
  uses as a dictionary under computed names (the cache, the currency table, the per-prefix
  counters) is modelled by its own properties, as an association list, together with what
  a read finds further up the prototype chain when the name is no own property: the
  members of \<open>Object.prototype\<close>. Output to the console is left out.
\<close>

type_synonym jstring = "nat list"

definition lit :: "string \<Rightarrow> jstring" where
  "lit s = map of_char s"

text \<open>White space as \<open>String.prototype.trim\<close> and the regular expression class
  \<open>\s\<close> read it: tab, line feed, vertical tab, form feed, carriage return, space,
  no-break space, U+1680, U+2000 to U+200A, U+2028, U+2029, U+202F, U+205F, U+3000, U+FEFF.\<close>

definition is_space :: "nat \<Rightarrow> bool" where
  "is_space u = ((9 \<le> u \<and> u \<le> 13) \<or> u = 32 \<or> u = 160 \<or> u = 5760 \<or> (8192 \<le> u \<and> u \<le> 8202)
     \<or> u = 8232 \<or> u = 8233 \<or> u = 8239 \<or> u = 8287 \<or> u = 12288 \<or> u = 65279)"

definition trim :: "jstring \<Rightarrow> jstring" where
  "trim s = rev (dropWhile is_space (rev (dropWhile is_space s)))"

text \<open>\<open>toLowerCase\<close> on the letters A to Z. Code units outside ASCII are left as they
  are: the Unicode case tables that the runtime applies to them are not reproduced, and no
  statement below depends on them.\<close>

definition lower_unit :: "nat \<Rightarrow> nat" where
  "lower_unit u = (if 65 \<le> u \<and> u \<le> 90 then u + 32 else u)"

definition toLowerCase :: "jstring \<Rightarrow> jstring" where
  "toLowerCase s = map lower_unit s"

fun startsWith :: "jstring \<Rightarrow> jstring \<Rightarrow> bool" where
  "startsWith s [] = True"
| "startsWith [] (p # ps) = False"
| "startsWith (u # us) (p # ps) = (u = p \<and> startsWith us ps)"

text \<open>\<open>key.split(':')[0]\<close>: the part of the key before its first colon.\<close>

definition prefix_segment :: "jstring \<Rightarrow> jstring" where
  "prefix_segment k = takeWhile (\<lambda>u. u \<noteq> 58) k"

text \<open>Decimal digits of a natural number, and \<open>Number.prototype.toString\<close> on an
  integer.\<close>

fun digits :: "nat \<Rightarrow> jstring" where
  "digits n = (if n < 10 then [48 + n] else digits (n div 10) @ [48 + n mod 10])"

declare digits.simps [simp del]

definition show_int :: "int \<Rightarrow> jstring" where
  "show_int i = (if i < 0 then 45 # digits (nat (- i)) else digits (nat i))"

section \<open>Members of \<open>Object.prototype\<close>\<close>

text \<open>The names that every plain object inherits: eleven functions and the accessor
  \<open>__proto__\<close>, which reads and replaces the prototype of the object.\<close>

definition object_prototype_functions :: "jstring list" where
  "object_prototype_functions =
     [lit ''constructor'', lit ''__defineGetter__'', lit ''__defineSetter__'', lit ''hasOwnProperty'',
      lit ''__lookupGetter__'', lit ''__lookupSetter__'', lit ''isPrototypeOf'',
      lit ''propertyIsEnumerable'', lit ''toString'', lit ''valueOf'', lit ''toLocaleString'']"

text \<open>The text of such a function when it is converted to a string: under the name
  \<open>constructor\<close> the function is \<open>Object\<close>, under every other name it carries that
  name.\<close>

definition function_text :: "jstring \<Rightarrow> jstring" where
  "function_text name =
     lit ''function '' @ (if name = lit ''constructor'' then lit ''Object'' else name)
       @ lit ''() { [native code] }''"

text \<open>What a read of \<open>name\<close> on an object without own properties contributes to a string:
  the text of the inherited function, the text of the prototype itself for
  \<open>__proto__\<close>, and nothing for any other name (the read gives \<open>undefined\<close>).\<close>

definition inherited_text :: "jstring \<Rightarrow> jstring option" where
  "inherited_text name =
     (if name = lit ''__proto__'' then Some (lit ''[object Object]'')
      else if name \<in> set object_prototype_functions then Some (function_text name)
      else None)"

section \<open>The cache store\<close>

record 'v CacheEntry =
  entry_value :: 'v
  expiresAt :: int

text \<open>The own properties of the module's \<open>cache\<close> object, in the order in which
  \<open>Object.keys\<close> lists them.\<close>

type_synonym 'v cache = "(jstring \<times> 'v CacheEntry) list"

definition generateCacheKey :: "jstring \<Rightarrow> jstring \<Rightarrow> jstring" where
  "generateCacheKey companyName jobTitle =
     (let normalizedCompany = toLowerCase (trim companyName);
          normalizedJob = toLowerCase (trim jobTitle)
      in lit ''salary:'' @ normalizedCompany @ lit '':'' @ normalizedJob)"

definition generateCompanyCacheKey :: "jstring \<Rightarrow> jstring" where
  "generateCompanyCacheKey companyName =
     (let normalizedCompany = toLowerCase (trim companyName)
      in lit ''company:'' @ normalizedCompany)"

definition generateJobCacheKey :: "jstring \<Rightarrow> jstring" where
  "generateJobCacheKey jobTitle =
     (let normalizedJob = toLowerCase (trim jobTitle)
      in lit ''job:'' @ normalizedJob)"

text \<open>\<open>setCacheValue(key, value, ttlSeconds = 86400)\<close> at the time \<open>now\<close>
  (\<open>Date.now()\<close>, in milliseconds), as far as the own properties go. A missing third
  argument is \<open>None\<close>. The assignment \<open>cache[key] = {value, expiresAt}\<close> adds or
  replaces the own property \<open>key\<close>, except under the name \<open>__proto__\<close>: there it
  replaces the prototype of the cache object and no own property appears (see
  \<open>setCacheValue_object\<close> below).\<close>

definition setCacheValue :: "jstring \<Rightarrow> 'v \<Rightarrow> int option \<Rightarrow> int \<Rightarrow> 'v cache \<Rightarrow> 'v cache" where
  "setCacheValue key v ttl now c =
     (let ttlSeconds = (case ttl of None \<Rightarrow> 86400 | Some t \<Rightarrow> t);
          expires = now + ttlSeconds * 1000
      in if key = lit ''__proto__'' then c
         else AList.update key \<lparr>entry_value = v, expiresAt = expires\<rparr> c)"

text \<open>\<open>getCacheValue(key)\<close> at the time \<open>now\<close>, for a key that is an own property
  of the cache or is found nowhere on its prototype chain: the value read (\<open>None\<close> is the
  \<open>null\<close> of a miss) and the own properties afterwards. Every key that the program
  generates contains a colon and is of this kind; \<open>getCacheValue_object\<close> below follows
  the read of any key.\<close>

definition getCacheValue :: "jstring \<Rightarrow> int \<Rightarrow> 'v cache \<Rightarrow> 'v option \<times> 'v cache" where
  "getCacheValue key now c =
     (case map_of c key of
        None \<Rightarrow> (None, c)
      | Some entry \<Rightarrow>
          if now > expiresAt entry then (None, AList.delete key c)
          else (Some (entry_value entry), c))"

text \<open>\<open>clearCache(prefix?)\<close>: a missing or empty prefix is falsy and clears everything;
  otherwise the keys are listed first and each key that starts with the prefix is deleted.\<close>

definition clearCache :: "jstring option \<Rightarrow> 'v cache \<Rightarrow> 'v cache" where
  "clearCache pre c =
     (case pre of
        None \<Rightarrow> fold (\<lambda>key acc. AList.delete key acc) (map fst c) c
      | Some p \<Rightarrow>
          if p = [] then fold (\<lambda>key acc. AList.delete key acc) (map fst c) c
          else fold (\<lambda>key acc. if startsWith key p then AList.delete key acc else acc) (map fst c) c)"

text \<open>What the program can throw: an \<open>Error\<close> with its message, a TypeError, a URIError,
  and the rejection of a promise of the runtime (\<open>fetch\<close>, \<open>response.json()\<close>).\<close>

datatype js_error = Error jstring | TypeError | URIError | Rejected

text \<open>A counter of \<open>byPrefix\<close> holds a number, or a string once \<open>+ 1\<close> has been
  applied to something that is no number.\<close>

datatype tally = Count nat | Text jstring

record CacheStats =
  totalEntries :: nat
  byPrefix :: "(jstring \<times> tally) list"
  memoryUsageEstimate :: nat

text \<open>\<open>(stats.byPrefix[prefix] || 0) + 1\<close> on the counters so far. The read finds an own
  counter, or else a member inherited from \<open>Object.prototype\<close> (a function or the
  prototype object, both truthy), or else \<open>undefined\<close>. A number is incremented; to
  a string, a function or an object \<open>+ 1\<close> appends the character \<open>1\<close> to its
  text.\<close>

definition bump :: "(jstring \<times> tally) list \<Rightarrow> jstring \<Rightarrow> tally" where
  "bump counts pre =
     (case map_of counts pre of
        Some (Count n) \<Rightarrow> Count (n + 1)
      | Some (Text s) \<Rightarrow> if s = [] then Count 1 else Text (s @ lit ''1'')
      | None \<Rightarrow>
          (case inherited_text pre of
             Some s \<Rightarrow> Text (s @ lit ''1'')
           | None \<Rightarrow> Count 1))"

text \<open>One round of the loop of \<open>getCacheStats\<close>. The assignment to
  \<open>stats.byPrefix[prefix]\<close> stores an own counter, except under the name
  \<open>__proto__\<close>, where the setter ignores a value that is no object. \<open>stringify\<close> is
  the runtime's \<open>JSON.stringify\<close>: it gives \<open>None\<close> (undefined) for a value it cannot
  write, and the \<open>.length\<close> of that raises a TypeError.\<close>

definition stats_step :: "('v \<Rightarrow> jstring option) \<Rightarrow> 'v cache \<Rightarrow> jstring \<Rightarrow> CacheStats \<Rightarrow> js_error + CacheStats" where
  "stats_step stringify c key stats =
     (let total = totalEntries stats + 1;
          pre = prefix_segment key;
          counts = (if pre = lit ''__proto__'' then byPrefix stats
                    else AList.update pre (bump (byPrefix stats) pre) (byPrefix stats))
      in case map_of c key of
           None \<Rightarrow> Inl TypeError
         | Some entry \<Rightarrow>
             (case stringify (entry_value entry) of
                None \<Rightarrow> Inl TypeError
              | Some json \<Rightarrow>
                  Inr \<lparr>totalEntries = total, byPrefix = counts,
                       memoryUsageEstimate = memoryUsageEstimate stats + length json * 2\<rparr>))"

fun stats_loop :: "('v \<Rightarrow> jstring option) \<Rightarrow> 'v cache \<Rightarrow> jstring list \<Rightarrow> CacheStats \<Rightarrow> js_error + CacheStats" where
  "stats_loop stringify c [] stats = Inr stats"
| "stats_loop stringify c (key # keys) stats =
     (case stats_step stringify c key stats of
        Inl e \<Rightarrow> Inl e
      | Inr stats' \<Rightarrow> stats_loop stringify c keys stats')"

definition getCacheStats :: "('v \<Rightarrow> jstring option) \<Rightarrow> 'v cache \<Rightarrow> js_error + CacheStats" where
  "getCacheStats stringify c =
     stats_loop stringify c (map fst c) \<lparr>totalEntries = 0, byPrefix = [], memoryUsageEstimate = 0\<rparr>"

section \<open>JavaScript values\<close>

text \<open>
  The values that travel through the program untyped (\<open>any\<close>): what \<open>JSON.parse\<close>
  delivers, plus \<open>undefined\<close>. A number is the rational it denotes, and sums, quotients
  and comparisons are taken on these rationals. An object is the list of its own
  properties; none of them is a function.
\<close>

datatype jsval =
    JUndefined
  | JNull
  | JBool bool
  | JNum rat
  | JStr jstring
  | JArr "jsval list"
  | JObj "(jstring \<times> jsval) list"

fun truthy :: "jsval \<Rightarrow> bool" where
  "truthy JUndefined = False"
| "truthy JNull = False"
| "truthy (JBool b) = b"
| "truthy (JNum n) = (n \<noteq> 0)"
| "truthy (JStr s) = (s \<noteq> [])"
| "truthy (JArr xs) = True"
| "truthy (JObj kvs) = True"

fun nullish :: "jsval \<Rightarrow> bool" where
  "nullish JUndefined = True"
| "nullish JNull = True"
| "nullish v = False"

text \<open>\<open>a || b\<close>.\<close>

definition or_else :: "jsval \<Rightarrow> jsval \<Rightarrow> jsval" where
  "or_else a b = (if truthy a then a else b)"

text \<open>Sequencing of steps that may throw.\<close>

definition and_then :: "js_error + 'a \<Rightarrow> ('a \<Rightarrow> js_error + 'b) \<Rightarrow> js_error + 'b" where
  "and_then r f = (case r of Inl e \<Rightarrow> Inl e | Inr x \<Rightarrow> f x)"

text \<open>\<open>v.name\<close> for a fixed property name, which in this program is never an array
  index and never the name of a member of \<open>Object.prototype\<close>: reading a property
  of \<open>undefined\<close> or \<open>null\<close> throws a TypeError, a missing property is
  \<open>undefined\<close>. Of the members that strings and arrays have by themselves, the
  program reads \<open>length\<close> only.\<close>

fun js_prop :: "jsval \<Rightarrow> jstring \<Rightarrow> js_error + jsval" where
  "js_prop JUndefined name = Inl TypeError"
| "js_prop JNull name = Inl TypeError"
| "js_prop (JBool b) name = Inr JUndefined"
| "js_prop (JNum n) name = Inr JUndefined"
| "js_prop (JStr s) name = Inr (if name = lit ''length'' then JNum (of_nat (length s)) else JUndefined)"
| "js_prop (JArr xs) name = Inr (if name = lit ''length'' then JNum (of_nat (length xs)) else JUndefined)"
| "js_prop (JObj kvs) name = Inr (case map_of kvs name of None \<Rightarrow> JUndefined | Some v \<Rightarrow> v)"

text \<open>\<open>v[i]\<close> for an index \<open>i\<close>.\<close>

fun js_index :: "jsval \<Rightarrow> nat \<Rightarrow> js_error + jsval" where
  "js_index JUndefined i = Inl TypeError"
| "js_index JNull i = Inl TypeError"
| "js_index (JBool b) i = Inr JUndefined"
| "js_index (JNum n) i = Inr JUndefined"
| "js_index (JStr s) i = Inr (if i < length s then JStr [s ! i] else JUndefined)"
| "js_index (JArr xs) i = Inr (if i < length xs then xs ! i else JUndefined)"
| "js_index (JObj kvs) i = Inr (case map_of kvs (digits i) of None \<Rightarrow> JUndefined | Some v \<Rightarrow> v)"

text \<open>\<open>v?.name\<close>.\<close>

definition opt_prop :: "jsval \<Rightarrow> jstring \<Rightarrow> js_error + jsval" where
  "opt_prop v name = (if nullish v then Inr JUndefined else js_prop v name)"

section \<open>Conversions between values\<close>

text \<open>The outcome of a conversion to a number: a number proper, or one of the three
  special values.\<close>

datatype jsnumber = Finite rat | NaN | PosInfinity | NegInfinity

text \<open>Two conversions are left to the runtime: the number that a string denotes
  (StringToNumber), and the decimal text of a number that is no safe integer
  (\<open>Number.prototype.toString\<close>).\<close>

record runtime =
  stringToNumber :: "jstring \<Rightarrow> jsnumber"
  numberToString :: "rat \<Rightarrow> jstring"

text \<open>\<open>Number.isSafeInteger\<close>, and the text of a number: a safe integer is written in
  decimal digits.\<close>

definition safe_integer :: "rat \<Rightarrow> bool" where
  "safe_integer n = (of_int \<lfloor>n\<rfloor> = n \<and> \<bar>n\<bar> \<le> 9007199254740991)"

definition number_text :: "runtime \<Rightarrow> jsnumber \<Rightarrow> jstring" where
  "number_text rt n =
     (case n of
        Finite r \<Rightarrow> if safe_integer r then show_int \<lfloor>r\<rfloor> else numberToString rt r
      | NaN \<Rightarrow> lit ''NaN''
      | PosInfinity \<Rightarrow> lit ''Infinity''
      | NegInfinity \<Rightarrow> lit ''-Infinity'')"

fun join_comma :: "jstring list \<Rightarrow> jstring" where
  "join_comma [] = []"
| "join_comma [s] = s"
| "join_comma (s # t # ss) = s @ lit '','' @ join_comma (t # ss)"

text \<open>The conversion of a value to a string (a property name, a part of a template
  string). An array is the join of its elements, \<open>undefined\<close> and \<open>null\<close> counting as
  empty. An object is \<open>[object Object]\<close> by the inherited \<open>toString\<close>; an own property
  of that name is no function and hides it, and then the conversion throws a TypeError.\<close>

fun to_text :: "runtime \<Rightarrow> jsval \<Rightarrow> js_error + jstring"
  and to_texts :: "runtime \<Rightarrow> jsval list \<Rightarrow> js_error + jstring list" where
  "to_text rt JUndefined = Inr (lit ''undefined'')"
| "to_text rt JNull = Inr (lit ''null'')"
| "to_text rt (JBool b) = Inr (if b then lit ''true'' else lit ''false'')"
| "to_text rt (JNum n) = Inr (number_text rt (Finite n))"
| "to_text rt (JStr s) = Inr s"
| "to_text rt (JArr xs) = (case to_texts rt xs of Inl e \<Rightarrow> Inl e | Inr ss \<Rightarrow> Inr (join_comma ss))"
| "to_text rt (JObj kvs) =
     (if lit ''toString'' \<in> fst ` set kvs then Inl TypeError else Inr (lit ''[object Object]''))"
| "to_texts rt [] = Inr []"
| "to_texts rt (x # xs) =
     (case (if nullish x then Inr [] else to_text rt x) of
        Inl e \<Rightarrow> Inl e
      | Inr s \<Rightarrow> (case to_texts rt xs of Inl e \<Rightarrow> Inl e | Inr ss \<Rightarrow> Inr (s # ss)))"

text \<open>The conversion of a value to a number (\<open>Number(v)\<close>, an operand of \<open>>\<close>). An
  array is converted by way of its text; an object is its text \<open>[object Object]\<close> and
  so no number, unless an own property \<open>toString\<close> hides the inherited function.\<close>

fun to_number :: "runtime \<Rightarrow> jsval \<Rightarrow> js_error + jsnumber" where
  "to_number rt JUndefined = Inr NaN"
| "to_number rt JNull = Inr (Finite 0)"
| "to_number rt (JBool b) = Inr (Finite (if b then 1 else 0))"
| "to_number rt (JNum n) = Inr (Finite n)"
| "to_number rt (JStr s) = Inr (stringToNumber rt s)"
| "to_number rt (JArr xs) =
     (case to_text rt (JArr xs) of Inl e \<Rightarrow> Inl e | Inr s \<Rightarrow> Inr (stringToNumber rt s))"
| "to_number rt (JObj kvs) =
     (if lit ''toString'' \<in> fst ` set kvs then Inl TypeError else Inr NaN)"

text \<open>\<open>a > b\<close> for a number \<open>a\<close> and the outcome \<open>b\<close> of a conversion.\<close>

definition greater_than :: "rat \<Rightarrow> jsnumber \<Rightarrow> bool" where
  "greater_than a b =
     (case b of Finite r \<Rightarrow> a > r | NaN \<Rightarrow> False | PosInfinity \<Rightarrow> False | NegInfinity \<Rightarrow> True)"

text \<open>\<open>v > 0\<close>.\<close>

definition js_gt0 :: "runtime \<Rightarrow> jsval \<Rightarrow> js_error + bool" where
  "js_gt0 rt v =
     and_then (to_number rt v)
       (\<lambda>n. Inr (case n of Finite r \<Rightarrow> r > 0 | NaN \<Rightarrow> False | PosInfinity \<Rightarrow> True | NegInfinity \<Rightarrow> False))"

section \<open>The cache object\<close>

text \<open>
  The cache as the object it is: its own properties, and the entry that an assignment to
  \<open>cache["__proto__"]\<close> has put in the place of its prototype, if there was one.
  Without such an assignment the prototype is \<open>Object.prototype\<close>.
\<close>

record store =
  own_entries :: "jsval cache"
  proto_entry :: "jsval CacheEntry option"

text \<open>What \<open>cache[key]\<close> reads: an entry (an own property, or under \<open>__proto__\<close> the
  entry that stands as prototype), a member of \<open>Object.prototype\<close>, a field of the
  entry that stands as prototype (its \<open>value\<close> or its \<open>expiresAt\<close>), or nothing. The
  module adds properties by assignment only, so \<open>__proto__\<close> is never an own property.\<close>

datatype slot = Entry "jsval CacheEntry" | Member | Plain jsval | Missing

definition cache_slot :: "store \<Rightarrow> jstring \<Rightarrow> slot" where
  "cache_slot S key =
     (if key = lit ''__proto__'' then
        (case proto_entry S of Some e \<Rightarrow> Entry e | None \<Rightarrow> Member)
      else
        case map_of (own_entries S) key of
          Some e \<Rightarrow> Entry e
        | None \<Rightarrow>
            (case proto_entry S of
               Some e \<Rightarrow>
                 if key = lit ''value'' then Plain (entry_value e)
                 else if key = lit ''expiresAt'' then Plain (JNum (of_int (expiresAt e)))
                 else if key \<in> set object_prototype_functions then Member
                 else Missing
             | None \<Rightarrow> if key \<in> set object_prototype_functions then Member else Missing))"

text \<open>\<open>setCacheValue\<close> on the cache object: under \<open>__proto__\<close> the new entry becomes
  the prototype, under every other name an own property.\<close>

definition setCacheValue_object :: "jstring \<Rightarrow> jsval \<Rightarrow> int option \<Rightarrow> int \<Rightarrow> store \<Rightarrow> store" where
  "setCacheValue_object key v ttl now S =
     (let ttlSeconds = (case ttl of None \<Rightarrow> 86400 | Some t \<Rightarrow> t);
          expires = now + ttlSeconds * 1000
      in if key = lit ''__proto__'' then S\<lparr>proto_entry := Some \<lparr>entry_value = v, expiresAt = expires\<rparr>\<rparr>
         else S\<lparr>own_entries := setCacheValue key v ttl now (own_entries S)\<rparr>)"

text \<open>\<open>getCacheValue\<close> on the cache object. What is read is tested for truthiness, its
  \<open>expiresAt\<close> is compared with the time, and then it is deleted (which removes an own
  property and nothing else) or its \<open>value\<close> is returned. \<open>None\<close> is \<open>null\<close>; a
  member of \<open>Object.prototype\<close> is truthy and has neither field, so \<open>undefined\<close> is
  returned for it.\<close>

definition getCacheValue_object ::
  "runtime \<Rightarrow> jstring \<Rightarrow> int \<Rightarrow> store \<Rightarrow> (js_error + jsval option) \<times> store" where
  "getCacheValue_object rt key now S =
     (case cache_slot S key of
        Missing \<Rightarrow> (Inr None, S)
      | Member \<Rightarrow> (Inr (Some JUndefined), S)
      | Entry entry \<Rightarrow>
          if now > expiresAt entry then (Inr None, S\<lparr>own_entries := AList.delete key (own_entries S)\<rparr>)
          else (Inr (Some (entry_value entry)), S)
      | Plain x \<Rightarrow>
          if \<not> truthy x then (Inr None, S)
          else
            (case and_then (js_prop x (lit ''expiresAt'')) (to_number rt) of
               Inl e \<Rightarrow> (Inl e, S)
             | Inr expires \<Rightarrow>
                 if greater_than (of_int now) expires then (Inr None, S)
                 else (case js_prop x (lit ''value'') of
                         Inl e \<Rightarrow> (Inl e, S)
                       | Inr v \<Rightarrow> (Inr (Some v), S))))"

text \<open>The calls that the cache module offers, each with the time at which it runs where
  it reads the clock, and the cache object after a call.\<close>

datatype cache_call =
    GetCacheValue jstring int
  | SetCacheValue jstring jsval "int option" int
  | ClearCache "jstring option"
  | GetCacheStats

definition run_call :: "runtime \<Rightarrow> cache_call \<Rightarrow> store \<Rightarrow> store" where
  "run_call rt call S =
     (case call of
        GetCacheValue key now \<Rightarrow> snd (getCacheValue_object rt key now S)
      | SetCacheValue key v ttl now \<Rightarrow> setCacheValue_object key v ttl now S
      | ClearCache pre \<Rightarrow> S\<lparr>own_entries := clearCache pre (own_entries S)\<rparr>
      | GetCacheStats \<Rightarrow> S)"

section \<open>Formatting helpers\<close>

text \<open>The class \<open>\w\<close> of a regular expression without the unicode flag: A to Z, a to z,
  0 to 9 and the underscore.\<close>

definition is_word :: "nat \<Rightarrow> bool" where
  "is_word u = ((48 \<le> u \<and> u \<le> 57) \<or> (65 \<le> u \<and> u \<le> 90) \<or> u = 95 \<or> (97 \<le> u \<and> u \<le> 122))"

definition formatName :: "jstring \<Rightarrow> jstring" where
  "formatName name =
     (if name = [] then []
      else
        let cleanedName = trim (takeWhile (\<lambda>u. u \<noteq> 44 \<and> u \<noteq> 40) name)
        in filter (\<lambda>u. is_word u \<or> is_space u) cleanedName)"

text \<open>The sanitizer as the specification words it: truncate at the first comma or opening
  parenthesis, trim, then strip every character that is not alphanumeric or white space.\<close>

definition is_alphanumeric :: "nat \<Rightarrow> bool" where
  "is_alphanumeric u = ((48 \<le> u \<and> u \<le> 57) \<or> (65 \<le> u \<and> u \<le> 90) \<or> (97 \<le> u \<and> u \<le> 122))"

definition spec_formatName :: "jstring \<Rightarrow> jstring" where
  "spec_formatName name =
     filter (\<lambda>u. is_alphanumeric u \<or> is_space u) (trim (takeWhile (\<lambda>u. u \<noteq> 44 \<and> u \<noteq> 40) name))"

definition currencySymbols :: "(jstring \<times> jstring) list" where
  "currencySymbols =
     [(lit ''INR'', [8377]), (lit ''GBP'', [163]), (lit ''USD'', lit ''$''), (lit ''EUR'', [8364]),
      (lit ''JPY'', [165]), (lit ''AUD'', lit ''A$''), (lit ''CAD'', lit ''C$'')]"

text \<open>\<open>currencySymbols[code] || ''\<close> as the text it contributes to the formatted
  string: the symbol of an own entry of the table, the text of a member inherited from
  \<open>Object.prototype\<close> (a function or the prototype object, both truthy), or the empty
  string.\<close>

definition symbol_for :: "jstring \<Rightarrow> jstring" where
  "symbol_for code =
     (case map_of currencySymbols code of
        Some s \<Rightarrow> s
      | None \<Rightarrow> (case inherited_text code of Some s \<Rightarrow> s | None \<Rightarrow> []))"

text \<open>\<open>Math.round\<close>: the nearest integer, a half rounded up.\<close>

definition Math_round :: "rat \<Rightarrow> int" where
  "Math_round x = \<lfloor>x + 1 / 2\<rfloor>"

text \<open>\<open>formatSalary(salary, currency)\<close>. The currency is turned into a property name,
  the amount into a number; either conversion can throw.\<close>

definition formatSalary :: "runtime \<Rightarrow> jsval \<Rightarrow> jsval \<Rightarrow> js_error + jstring" where
  "formatSalary rt salary currency =
     (if \<not> truthy salary then Inr (lit ''N/A'')
      else
        and_then (to_text rt currency)
          (\<lambda>code.
             let currencySymbol = symbol_for code in
             and_then (to_number rt salary)
               (\<lambda>numericSalary.
                  case numericSalary of
                    Finite n \<Rightarrow>
                      if n \<ge> 10000000 then
                        Inr (currencySymbol @ number_text rt (Finite (of_int (Math_round (n / 10000000)))) @ lit '' cr'')
                      else if n \<ge> 100000 then
                        Inr (currencySymbol @ number_text rt (Finite (of_int (Math_round (n / 100000)))) @ lit '' lakh'')
                      else if n \<ge> 1000 then
                        Inr (currencySymbol @ number_text rt (Finite (of_int (Math_round (n / 1000)))) @ lit '' k'')
                      else Inr (currencySymbol @ number_text rt (Finite n))
                  | NaN \<Rightarrow> Inr (currencySymbol @ lit ''NaN'')
                  | PosInfinity \<Rightarrow> Inr (currencySymbol @ lit ''Infinity cr'')
                  | NegInfinity \<Rightarrow> Inr (currencySymbol @ lit ''-Infinity''))))"

section \<open>The upstream lookup pipeline\<close>

text \<open>
  The three outbound calls. A request is named by its operation and the values the
  program puts into it. The upstream answers a request, given the requests sent before
  it, after some milliseconds with a reply: the call fails (the promise of \<open>fetch\<close> is
  rejected), or a response arrives with its \<open>ok\<close> flag, its status and its body, which is
  JSON or not (then \<open>response.json()\<close> is rejected).
\<close>

datatype request =
    CompanySearch jstring
  | JobTitleAutocomplete jstring
  | EiSalaries jsval jsval jsval

datatype reply = Failed | Response bool nat "jsval option"

text \<open>The process configuration (\<open>GLASSDOOR_BASE_URL\<close>, \<open>GLASSDOOR_GRAPH_URL\<close>), the
  upstream, the runtime's \<open>Date.prototype.toISOString\<close>, and its conversions between
  strings and numbers.\<close>

record env =
  baseUrl :: "jstring option"
  graphUrl :: "jstring option"
  upstream :: "request list \<Rightarrow> request \<Rightarrow> nat \<times> reply"
  toISOString :: "int \<Rightarrow> jstring"
  host :: runtime

text \<open>What the program changes: the module's cache, the clock that \<open>Date.now()\<close> reads,
  and the requests sent so far. Time passes while the program waits for the upstream. Each
  key under which the lookups read and write begins with \<open>salary:\<close>, \<open>company:\<close>
  or \<open>job:\<close>; no such key names a member of \<open>Object.prototype\<close>, so the own
  properties of the cache are all that these reads and writes touch.\<close>

record world =
  cache :: "jsval cache"
  clock :: int
  requests :: "request list"

definition configured :: "jstring option \<Rightarrow> bool" where
  "configured url = (case url of None \<Rightarrow> False | Some s \<Rightarrow> s \<noteq> [])"

definition fetch :: "env \<Rightarrow> request \<Rightarrow> world \<Rightarrow> reply \<times> world" where
  "fetch E req w =
     (case upstream E (requests w) req of
        (elapsed, r) \<Rightarrow> (r, w\<lparr>clock := clock w + int elapsed, requests := requests w @ [req]\<rparr>))"

text \<open>\<open>if (!response.ok) throw new Error(message + response.status)\<close>, then
  \<open>await response.json()\<close>.\<close>

definition json_of :: "jstring \<Rightarrow> reply \<Rightarrow> js_error + jsval" where
  "json_of message r =
     (case r of
        Failed \<Rightarrow> Inl Rejected
      | Response ok status body \<Rightarrow>
          if \<not> ok then Inl (Error (message @ digits status))
          else (case body of None \<Rightarrow> Inl Rejected | Some jsonResponse \<Rightarrow> Inr jsonResponse))"

text \<open>\<open>if (cached) return cached\<close>: a cached value counts when it is truthy.\<close>

definition cache_hit :: "jsval option \<Rightarrow> jsval option" where
  "cache_hit r = (case r of None \<Rightarrow> None | Some v \<Rightarrow> if truthy v then Some v else None)"

text \<open>\<open>xs && xs.length > 0\<close> and \<open>!xs || xs.length === 0\<close>.\<close>

definition non_empty :: "runtime \<Rightarrow> jsval \<Rightarrow> js_error + bool" where
  "non_empty rt xs =
     (if \<not> truthy xs then Inr False else and_then (js_prop xs (lit ''length'')) (js_gt0 rt))"

definition no_results :: "jsval \<Rightarrow> js_error + bool" where
  "no_results xs =
     (if \<not> truthy xs then Inr True
      else and_then (js_prop xs (lit ''length'')) (\<lambda>n. Inr (n = JNum 0)))"

text \<open>\<open>encodeURIComponent\<close> throws a URIError on a string with a lone surrogate.\<close>

fun lone_surrogate :: "jstring \<Rightarrow> bool" where
  "lone_surrogate [] = False"
| "lone_surrogate [u] = (55296 \<le> u \<and> u \<le> 57343)"
| "lone_surrogate (u # v # us) =
     (if 55296 \<le> u \<and> u \<le> 56319 then (if 56320 \<le> v \<and> v \<le> 57343 then lone_surrogate us else True)
      else if 56320 \<le> u \<and> u \<le> 57343 then True
      else lone_surrogate (v # us))"

definition fetchGlassdoorCompanies :: "env \<Rightarrow> jstring \<Rightarrow> world \<Rightarrow> (js_error + jsval) \<times> world" where
  "fetchGlassdoorCompanies E companyName w =
     (let companyCacheKey = generateCompanyCacheKey companyName in
      case getCacheValue companyCacheKey (clock w) (cache w) of
        (cachedCompanies, c1) \<Rightarrow>
          let w1 = w\<lparr>cache := c1\<rparr> in
          case cache_hit cachedCompanies of
            Some v \<Rightarrow> (Inr v, w1)
          | None \<Rightarrow>
              if \<not> configured (baseUrl E) then
                (Inl (Error (lit ''Glassdoor base URL is not configured'')), w1)
              else if lone_surrogate companyName then (Inl URIError, w1)
              else
                case fetch E (CompanySearch companyName) w1 of
                  (response, w2) \<Rightarrow>
                    case and_then (json_of (lit ''API request failed with status '') response)
                           (\<lambda>jsonResponse. and_then (js_prop jsonResponse (lit ''json''))
                             (\<lambda>a. and_then (js_prop a (lit ''response''))
                               (\<lambda>b. and_then (js_prop b (lit ''employers''))
                                 (\<lambda>companies. and_then (non_empty (host E) companies)
                                   (\<lambda>keep. Inr (companies, keep)))))) of
                      Inl e \<Rightarrow> (Inl e, w2)
                    | Inr (companies, keep) \<Rightarrow>
                        if keep then
                          (Inr companies,
                           w2\<lparr>cache := setCacheValue companyCacheKey companies (Some (30 * 24 * 60 * 60))
                                          (clock w2) (cache w2)\<rparr>)
                        else (Inr companies, w2))"

definition fetchJobTitles :: "env \<Rightarrow> jstring \<Rightarrow> world \<Rightarrow> (js_error + jsval) \<times> world" where
  "fetchJobTitles E jobTitleInput w =
     (let jobCacheKey = generateJobCacheKey jobTitleInput in
      case getCacheValue jobCacheKey (clock w) (cache w) of
        (cachedJobs, c1) \<Rightarrow>
          let w1 = w\<lparr>cache := c1\<rparr> in
          case cache_hit cachedJobs of
            Some v \<Rightarrow> (Inr v, w1)
          | None \<Rightarrow>
              if \<not> configured (graphUrl E) then
                (Inl (Error (lit ''Glassdoor graph URL is not configured'')), w1)
              else
                case fetch E (JobTitleAutocomplete jobTitleInput) w1 of
                  (response, w2) \<Rightarrow>
                    case and_then (json_of (lit ''GraphQL request failed with status '') response)
                           (\<lambda>jsonResponse. and_then (js_index jsonResponse 0)
                             (\<lambda>a. and_then (opt_prop a (lit ''data''))
                               (\<lambda>b. and_then (opt_prop b (lit ''jobTitleAutocomplete''))
                                 (\<lambda>r. let jobs = or_else r (JArr []) in
                                      and_then (non_empty (host E) jobs) (\<lambda>keep. Inr (jobs, keep)))))) of
                      Inl e \<Rightarrow> (Inl e, w2)
                    | Inr (jobs, keep) \<Rightarrow>
                        if keep then
                          (Inr jobs,
                           w2\<lparr>cache := setCacheValue jobCacheKey jobs (Some (30 * 24 * 60 * 60))
                                          (clock w2) (cache w2)\<rparr>)
                        else (Inr jobs, w2))"

text \<open>\<open>jsonResponse[0]?.data?.aggregatedSalaryEstimates.results || []\<close>: the two optional
  links end the whole chain with \<open>undefined\<close>; the last two links are plain property reads.\<close>

definition salary_results :: "jsval \<Rightarrow> js_error + jsval" where
  "salary_results jsonResponse =
     and_then (js_index jsonResponse 0)
       (\<lambda>a. and_then
               (if nullish a then Inr JUndefined
                else and_then (js_prop a (lit ''data''))
                       (\<lambda>b. if nullish b then Inr JUndefined
                            else and_then (js_prop b (lit ''aggregatedSalaryEstimates''))
                                   (\<lambda>estimates. js_prop estimates (lit ''results''))))
               (\<lambda>r. Inr (or_else r (JArr []))))"

definition fetchSalaries :: "env \<Rightarrow> jsval \<Rightarrow> jsval \<Rightarrow> jsval \<Rightarrow> world \<Rightarrow> (js_error + jsval) \<times> world" where
  "fetchSalaries E companyId jobId jobTitle w =
     (if \<not> configured (graphUrl E) then
        (Inl (Error (lit ''Glassdoor graph URL is not configured'')), w)
      else
        case fetch E (EiSalaries companyId jobId jobTitle) w of
          (response, w2) \<Rightarrow>
            (and_then (json_of (lit ''GraphQL request failed with status '') response) salary_results, w2))"

text \<open>\<open>salaryPercentiles.find(item => item.ident === p)?.value\<close>. Only an array has
  \<open>find\<close>.\<close>

fun find_ident :: "jstring \<Rightarrow> jsval list \<Rightarrow> js_error + jsval" where
  "find_ident p [] = Inr JUndefined"
| "find_ident p (item # items) =
     (case js_prop item (lit ''ident'') of
        Inl e \<Rightarrow> Inl e
      | Inr ident \<Rightarrow> if ident = JStr p then Inr item else find_ident p items)"

definition percentile :: "jsval \<Rightarrow> jstring \<Rightarrow> js_error + jsval" where
  "percentile salaryPercentiles p =
     (case salaryPercentiles of
        JArr items \<Rightarrow> and_then (find_ident p items) (\<lambda>item. opt_prop item (lit ''value''))
      | _ \<Rightarrow> Inl TypeError)"

text \<open>The first company and the first job title, taken apart by destructuring.\<close>

definition first_company :: "jsval \<Rightarrow> js_error + jsval \<times> jsval \<times> jsval" where
  "first_company companies =
     and_then (js_index companies 0)
       (\<lambda>first. and_then (js_prop first (lit ''id''))
         (\<lambda>companyId. and_then (js_prop first (lit ''name''))
           (\<lambda>glassdoorCompanyName. and_then (js_prop first (lit ''overallRating''))
             (\<lambda>companyRating. Inr (companyId, glassdoorCompanyName, companyRating)))))"

definition first_job :: "jsval \<Rightarrow> js_error + jsval \<times> jsval" where
  "first_job jobs =
     and_then (js_index jobs 0)
       (\<lambda>first. and_then (js_prop first (lit ''id''))
         (\<lambda>jobId. and_then (js_prop first (lit ''label''))
           (\<lambda>jobName. Inr (jobId, jobName))))"

text \<open>The part of \<open>getSalaryInfo\<close> after the salary lookup: the first salary record (or
  \<open>{}\<close>), its currency code and percentiles, the formatted values, the result object, and
  the write to the cache.\<close>

definition salary_fields :: "jsval \<Rightarrow> js_error + jsval \<times> jsval \<times> jsval \<times> jsval \<times> jsval" where
  "salary_fields salaries =
     and_then (js_index salaries 0)
       (\<lambda>first.
          let salary = or_else first (JObj []) in
          and_then (and_then (opt_prop salary (lit ''currency'')) (\<lambda>c. opt_prop c (lit ''code'')))
            (\<lambda>salaryCurrency.
               and_then (and_then (opt_prop salary (lit ''totalPayStatistics''))
                           (\<lambda>t. opt_prop t (lit ''percentiles'')))
                 (\<lambda>ps.
                    let salaryPercentiles = or_else ps (JArr []) in
                    and_then (percentile salaryPercentiles (lit ''P25''))
                      (\<lambda>salaryLow. and_then (percentile salaryPercentiles (lit ''P50''))
                        (\<lambda>salaryMed. and_then (percentile salaryPercentiles (lit ''P75''))
                          (\<lambda>salaryHigh. and_then (js_prop salary (lit ''salaryCount''))
                            (\<lambda>n. Inr (salaryCurrency, salaryLow, salaryMed, salaryHigh,
                                       or_else n (JNum 0)))))))))"

definition composeResult ::
  "env \<Rightarrow> jstring \<Rightarrow> jsval \<Rightarrow> jsval \<Rightarrow> jsval \<Rightarrow> jsval \<Rightarrow> world \<Rightarrow> (js_error + jsval) \<times> world" where
  "composeResult E cacheKey glassdoorCompanyName companyRating jobName salaries w =
     (case and_then (salary_fields salaries)
             (\<lambda>(salaryCurrency, salaryLow, salaryMed, salaryHigh, salaryCount).
                and_then (formatSalary (host E) salaryLow salaryCurrency)
                  (\<lambda>salaryLowRange. and_then (formatSalary (host E) salaryMed salaryCurrency)
                    (\<lambda>salaryMedian. and_then (formatSalary (host E) salaryHigh salaryCurrency)
                      (\<lambda>salaryHighRange.
                         Inr (JObj
                           [(lit ''company'',
                               JObj [(lit ''name'', glassdoorCompanyName), (lit ''rating'', companyRating)]),
                            (lit ''job'', JObj [(lit ''title'', jobName), (lit ''salaryCount'', salaryCount)]),
                            (lit ''salary'',
                               JObj [(lit ''currency'', salaryCurrency),
                                     (lit ''low'', JStr salaryLowRange),
                                     (lit ''median'', JStr salaryMedian),
                                     (lit ''high'', JStr salaryHighRange),
                                     (lit ''range'', JStr (salaryLowRange @ lit '' - '' @ salaryHighRange))]),
                            (lit ''source'', JStr (lit ''Glassdoor'')),
                            (lit ''timestamp'', JStr (toISOString E (clock w)))]))))) of
        Inl e \<Rightarrow> (Inl e, w)
      | Inr result \<Rightarrow>
          (Inr result,
           w\<lparr>cache := setCacheValue cacheKey result (Some (15 * 24 * 60 * 60)) (clock w) (cache w)\<rparr>))"

definition getSalaryInfo :: "env \<Rightarrow> jstring \<Rightarrow> jstring \<Rightarrow> world \<Rightarrow> (js_error + jsval) \<times> world" where
  "getSalaryInfo E companyName jobTitle w =
     (let cacheKey = generateCacheKey companyName jobTitle in
      case getCacheValue cacheKey (clock w) (cache w) of
        (cachedData, c1) \<Rightarrow>
          let w1 = w\<lparr>cache := c1\<rparr> in
          case cache_hit cachedData of
            Some v \<Rightarrow> (Inr v, w1)
          | None \<Rightarrow>
              let formattedCompanyName = formatName companyName;
                  formattedJobTitle = formatName jobTitle
              in
              case fetchGlassdoorCompanies E formattedCompanyName w1 of
                (Inl e, w2) \<Rightarrow> (Inl e, w2)
              | (Inr companies, w2) \<Rightarrow>
                  (case and_then (no_results companies)
                          (\<lambda>none. if none then
                                     Inl (Error (lit ''No company found matching '' @ [39] @ companyName @ [39]))
                                   else first_company companies) of
                     Inl e \<Rightarrow> (Inl e, w2)
                   | Inr (companyId, glassdoorCompanyName, companyRating) \<Rightarrow>
                       (case fetchJobTitles E formattedJobTitle w2 of
                          (Inl e, w3) \<Rightarrow> (Inl e, w3)
                        | (Inr jobs, w3) \<Rightarrow>
                            (case and_then (no_results jobs)
                                    (\<lambda>none. if none then
                                               Inl (Error (lit ''No job titles found matching '' @ [39] @ jobTitle @ [39]))
                                             else first_job jobs) of
                               Inl e \<Rightarrow> (Inl e, w3)
                             | Inr (jobId, jobName) \<Rightarrow>
                                 (case fetchSalaries E companyId jobId jobName w3 of
                                    (Inl e, w4) \<Rightarrow> (Inl e, w4)
                                  | (Inr salaries, w4) \<Rightarrow>
                                      composeResult E cacheKey glassdoorCompanyName companyRating
                                        jobName salaries w4)))))"

text \<open>An upstream that answers every company search, every job-title search and every
  salary query with one fixed payload each, after the delay \<open>lat\<close> gives the request; and
  the payloads of the end-to-end example: one employer, one job title and one salary
  record.\<close>

definition canned_upstream ::
  "(request \<Rightarrow> nat) \<Rightarrow> jsval \<Rightarrow> jsval \<Rightarrow> jsval \<Rightarrow> request list \<Rightarrow> request \<Rightarrow> nat \<times> reply" where
  "canned_upstream lat companies jobs salaries history req =
     (lat req,
      Response True 200
        (Some (case req of
                 CompanySearch name \<Rightarrow> companies
               | JobTitleAutocomplete title \<Rightarrow> jobs
               | EiSalaries companyId jobId title \<Rightarrow> salaries)))"

definition canned_env ::
  "runtime \<Rightarrow> (request \<Rightarrow> nat) \<Rightarrow> (int \<Rightarrow> jstring) \<Rightarrow> jsval \<Rightarrow> jsval \<Rightarrow> jsval \<Rightarrow> env" where
  "canned_env rt lat fmt companies jobs salaries =
     \<lparr>baseUrl = Some (lit ''https://companies.test''), graphUrl = Some (lit ''https://graph.test''),
      upstream = canned_upstream lat companies jobs salaries, toISOString = fmt, host = rt\<rparr>"

definition employers_payload :: "jsval \<Rightarrow> jsval" where
  "employers_payload employers =
     JObj [(lit ''json'', JObj [(lit ''response'', JObj [(lit ''employers'', employers)])])]"

definition jobs_payload :: "jsval \<Rightarrow> jsval" where
  "jobs_payload suggestions = JArr [JObj [(lit ''data'', JObj [(lit ''jobTitleAutocomplete'', suggestions)])]]"

definition salaries_payload :: "jsval \<Rightarrow> jsval" where
  "salaries_payload results =
     JArr [JObj [(lit ''data'', JObj [(lit ''aggregatedSalaryEstimates'', JObj [(lit ''results'', results)])])]]"

definition stub_companies :: jsval where
  "stub_companies =
     employers_payload
       (JArr [JObj [(lit ''id'', JNum 1), (lit ''name'', JStr (lit ''Acme'')),
                    (lit ''overallRating'', JNum (42 / 10))]])"

definition stub_jobs :: jsval where
  "stub_jobs = jobs_payload (JArr [JObj [(lit ''id'', JNum 9), (lit ''label'', JStr (lit ''Engineer''))]])"

definition stub_salaries :: jsval where
  "stub_salaries =
     salaries_payload
       (JArr [JObj [(lit ''currency'', JObj [(lit ''code'', JStr (lit ''USD''))]),
                    (lit ''totalPayStatistics'', JObj [(lit ''percentiles'',
                       JArr [JObj [(lit ''ident'', JStr (lit ''P25'')), (lit ''value'', JNum 80000)],
                             JObj [(lit ''ident'', JStr (lit ''P50'')), (lit ''value'', JNum 100000)],
                             JObj [(lit ''ident'', JStr (lit ''P75'')), (lit ''value'', JNum 120000)]])])]])"

definition stub_env :: "runtime \<Rightarrow> (request \<Rightarrow> nat) \<Rightarrow> (int \<Rightarrow> jstring) \<Rightarrow> env" where
  "stub_env rt lat fmt = canned_env rt lat fmt stub_companies stub_jobs stub_salaries"

text \<open>The result that \<open>getSalaryInfo\<close> composes from an empty salary list: no currency,
  a salary count of zero and \<open>N/A\<close> for every formatted value.\<close>

definition placeholder_result :: "jstring \<Rightarrow> jsval \<Rightarrow> jsval \<Rightarrow> jsval \<Rightarrow> jsval" where
  "placeholder_result timestamp glassdoorCompanyName companyRating jobName =
     JObj
       [(lit ''company'', JObj [(lit ''name'', glassdoorCompanyName), (lit ''rating'', companyRating)]),
        (lit ''job'', JObj [(lit ''title'', jobName), (lit ''salaryCount'', JNum 0)]),
        (lit ''salary'',
           JObj [(lit ''currency'', JUndefined),
                 (lit ''low'', JStr (lit ''N/A'')),
                 (lit ''median'', JStr (lit ''N/A'')),
                 (lit ''high'', JStr (lit ''N/A'')),
                 (lit ''range'', JStr (lit ''N/A - N/A''))]),
        (lit ''source'', JStr (lit ''Glassdoor'')),
        (lit ''timestamp'', JStr timestamp)]"

text \<open>For concrete runs: an upstream that answers at once, a clock that prints as the
  empty string, a runtime in which no string denotes a number and the numbers that are no
  safe integers print as the empty string, and \<open>JSON.stringify\<close> on the strings
  that need no escaping.\<close>

definition no_delay :: "request \<Rightarrow> nat" where
  "no_delay req = 0"

definition no_timestamp :: "int \<Rightarrow> jstring" where
  "no_timestamp t = []"

definition bare_runtime :: runtime where
  "bare_runtime = \<lparr>stringToNumber = (\<lambda>s. NaN), numberToString = (\<lambda>r. [])\<rparr>"

definition stringify_plain :: "jsval \<Rightarrow> jstring option" where
  "stringify_plain v = (case v of JStr s \<Rightarrow> Some ([34] @ s @ [34]) | _ \<Rightarrow> None)"

definition empty_store :: store where
  "empty_store = \<lparr>own_entries = [], proto_entry = None\<rparr>"

definition fresh_world :: world where
  "fresh_world = \<lparr>cache = [], clock = 0, requests = []\<rparr>"

text \<open>The result object of \<open>getSalaryInfo\<close>, from its parts.\<close>

definition salary_result ::
  "jstring \<Rightarrow> jsval \<Rightarrow> jsval \<Rightarrow> jsval \<Rightarrow> jsval \<Rightarrow> jsval \<Rightarrow> jstring \<Rightarrow> jstring \<Rightarrow> jstring \<Rightarrow> jsval" where
  "salary_result timestamp glassdoorCompanyName companyRating jobName salaryCount salaryCurrency
       salaryLowRange salaryMedian salaryHighRange =
     JObj
       [(lit ''company'', JObj [(lit ''name'', glassdoorCompanyName), (lit ''rating'', companyRating)]),
        (lit ''job'', JObj [(lit ''title'', jobName), (lit ''salaryCount'', salaryCount)]),
        (lit ''salary'',
           JObj [(lit ''currency'', salaryCurrency),
                 (lit ''low'', JStr salaryLowRange),
                 (lit ''median'', JStr salaryMedian),
                 (lit ''high'', JStr salaryHighRange),
                 (lit ''range'', JStr (salaryLowRange @ lit '' - '' @ salaryHighRange))]),
        (lit ''source'', JStr (lit ''Glassdoor'')),
        (lit ''timestamp'', JStr timestamp)]"

text \<open>What \<open>getSalaryInfo\<close> composes from the payloads of the end-to-end example, with the
  timestamp left open.\<close>

definition stub_result :: "jstring \<Rightarrow> jsval" where
  "stub_result timestamp =
     JObj
       [(lit ''company'', JObj [(lit ''name'', JStr (lit ''Acme'')), (lit ''rating'', JNum (42 / 10))]),
        (lit ''job'', JObj [(lit ''title'', JStr (lit ''Engineer'')), (lit ''salaryCount'', JNum 0)]),
        (lit ''salary'',
           JObj [(lit ''currency'', JStr (lit ''USD'')),
                 (lit ''low'', JStr (lit ''$80 k'')),
                 (lit ''median'', JStr (lit ''$1 lakh'')),
                 (lit ''high'', JStr (lit ''$1 lakh'')),
                 (lit ''range'', JStr (lit ''$80 k - $1 lakh''))]),
        (lit ''source'', JStr (lit ''Glassdoor'')),
        (lit ''timestamp'', JStr timestamp)]"

text \<open>\<open>result.salary.median\<close> of what \<open>getSalaryInfo\<close> returns.\<close>

definition result_median :: "js_error + jsval \<Rightarrow> js_error + jsval" where
  "result_median r =
     and_then r (\<lambda>result. and_then (js_prop result (lit ''salary'')) (\<lambda>s. js_prop s (lit ''median'')))"

text \<open>The bytes that \<open>getCacheStats\<close> adds for one key.\<close>

definition entry_size :: "('v \<Rightarrow> jstring option) \<Rightarrow> 'v cache \<Rightarrow> jstring \<Rightarrow> nat" where
  "entry_size f c k =
     (case map_of c k of None \<Rightarrow> 0
      | Some e \<Rightarrow> (case f (entry_value e) of None \<Rightarrow> 0 | Some s \<Rightarrow> length s * 2))"

section \<open>Facts about the cache store\<close>

lemma map_of_update_same: "map_of (AList.update k e c) k = Some e"
  by (simp add: update_conv')

lemma clear_fold_all: "fold (\<lambda>key acc. AList.delete key acc) ks c = filter (\<lambda>(k, e). k \<notin> set ks) c"
proof (induction ks arbitrary: c)
  case Nil
  then show ?case by (simp add: case_prod_unfold)
next
  case (Cons a ks)
  have "filter (\<lambda>(k, e). k \<notin> set ks) (AList.delete a c) = filter (\<lambda>(k, e). k \<notin> set (a # ks)) c"
    by (induction c) (auto simp: AList.delete_eq)
  with Cons show ?case by simp
qed

lemma clear_fold_prefix:
  "fold (\<lambda>key acc. if startsWith key p then AList.delete key acc else acc) ks c
     = filter (\<lambda>(k, e). \<not> (k \<in> set ks \<and> startsWith k p)) c"
proof (induction ks arbitrary: c)
  case Nil
  then show ?case by (simp add: case_prod_unfold)
next
  case (Cons a ks)
  have "filter (\<lambda>(k, e). \<not> (k \<in> set ks \<and> startsWith k p)) (AList.delete a c)
          = filter (\<lambda>(k, e). \<not> (k \<in> set (a # ks) \<and> startsWith k p)) c" if "startsWith a p"
    using that by (induction c) (auto simp: AList.delete_eq)
  moreover have "filter (\<lambda>(k, e). \<not> (k \<in> set ks \<and> startsWith k p)) c
          = filter (\<lambda>(k, e). \<not> (k \<in> set (a # ks) \<and> startsWith k p)) c" if "\<not> startsWith a p"
    using that by (induction c) auto
  ultimately show ?case using Cons by simp
qed

lemma clearCache_all: "clearCache None c = []"
proof -
  have "filter (\<lambda>(k, e). k \<notin> set (map fst c)) c = []"
    by (induction c) (auto simp: filter_empty_conv)
  then show ?thesis by (simp add: clearCache_def clear_fold_all)
qed

lemma clearCache_empty_prefix: "clearCache (Some []) c = []"
proof -
  have "filter (\<lambda>(k, e). k \<notin> set (map fst c)) c = []"
    by (induction c) (auto simp: filter_empty_conv)
  then show ?thesis by (simp add: clearCache_def clear_fold_all)
qed

lemma clearCache_prefix:
  assumes "p \<noteq> []"
  shows "clearCache (Some p) c = filter (\<lambda>(k, e). \<not> startsWith k p) c"
proof -
  have "filter (\<lambda>(k, e). \<not> (k \<in> set (map fst c) \<and> startsWith k p)) c
          = filter (\<lambda>(k, e). \<not> startsWith k p) c"
    by (rule filter_cong) force+
  with assms show ?thesis by (simp add: clearCache_def clear_fold_prefix)
qed

subsection \<open>Normalisation of keys\<close>

lemma is_space_lower [simp]: "is_space (lower_unit u) = is_space u"
  by (auto simp: is_space_def lower_unit_def)

lemma lower_unit_idem [simp]: "lower_unit (lower_unit u) = lower_unit u"
  by (auto simp: lower_unit_def)

lemma toLowerCase_idem: "toLowerCase (toLowerCase s) = toLowerCase s"
  by (simp add: toLowerCase_def)

lemma dropWhile_space_lower: "dropWhile is_space (map lower_unit s) = map lower_unit (dropWhile is_space s)"
  by (induction s) auto

lemma trim_toLowerCase: "trim (toLowerCase s) = toLowerCase (trim s)"
  by (simp add: trim_def toLowerCase_def dropWhile_space_lower rev_map)

lemma dropWhile_idem_hd: "dropWhile P (dropWhile P xs) = dropWhile P xs"
  by (induction xs) auto

lemma dropWhile_fix: "xs = [] \<or> \<not> P (hd xs) \<Longrightarrow> dropWhile P xs = xs"
  by (cases xs) auto

lemma last_dropWhile_ne: "dropWhile P xs \<noteq> [] \<Longrightarrow> last (dropWhile P xs) = last xs"
  by (induction xs) (auto split: if_splits)

lemma trim_hd: "trim s = [] \<or> \<not> is_space (hd (trim s))"
  by (metis dropWhile_fix hd_dropWhile last_dropWhile_ne last_rev
    rev.simps(1) rev_rev_ident trim_def)

lemma trim_idem: "trim (trim s) = trim s"
proof -
  have lead: "dropWhile is_space (trim s) = trim s"
    using trim_hd [of s] by (rule dropWhile_fix)
  have trail: "dropWhile is_space (rev (trim s)) = rev (trim s)"
    by (simp add: trim_def dropWhile_idem_hd)
  show ?thesis
    unfolding trim_def [of "trim s"] lead trail by simp
qed

subsection \<open>Statistics\<close>

lemma stats_loop_total:
  "stats_loop f c ks st0 = Inr st \<Longrightarrow> totalEntries st = totalEntries st0 + length ks"
proof (induction ks arbitrary: st0)
  case Nil
  then show ?case by simp
next
  case (Cons k ks)
  then show ?case
    by (auto simp: stats_step_def Let_def split: sum.splits option.splits)
qed

lemma stats_loop_memory:
  "stats_loop f c ks st0 = Inr st \<Longrightarrow>
     memoryUsageEstimate st = memoryUsageEstimate st0 + sum_list (map (entry_size f c) ks)"
proof (induction ks arbitrary: st0)
  case Nil
  then show ?case by simp
next
  case (Cons k ks)
  then show ?case
    by (auto simp: stats_step_def Let_def entry_size_def split: sum.splits option.splits)
qed

lemma not_inherited_proto: "inherited_text p = None \<Longrightarrow> p \<noteq> lit ''__proto__''"
  by (auto simp: inherited_text_def)

lemma stats_step_byPrefix:
  assumes "stats_step f c k st0 = Inr st1" "inherited_text p = None"
    and "map_of (byPrefix st0) p = (if m = 0 then None else Some (Count m))"
  shows "map_of (byPrefix st1) p
           = (if prefix_segment k = p then Some (Count (m + 1)) else if m = 0 then None else Some (Count m))"
proof -
  from assms(2) have np: "p \<noteq> lit ''__proto__''" by (rule not_inherited_proto)
  from assms(1) have by1: "byPrefix st1 =
      (if prefix_segment k = lit ''__proto__'' then byPrefix st0
       else AList.update (prefix_segment k) (bump (byPrefix st0) (prefix_segment k)) (byPrefix st0))"
    by (auto simp: stats_step_def Let_def split: option.splits)
  have bump_p: "bump (byPrefix st0) p = Count (m + 1)"
    using assms(2,3) by (simp add: bump_def)
  show ?thesis
    using np bump_p assms(3) by (auto simp: by1 update_conv')
qed

lemma stats_loop_byPrefix:
  "stats_loop f c ks st0 = Inr st \<Longrightarrow> inherited_text p = None \<Longrightarrow>
   map_of (byPrefix st0) p = (if m = 0 then None else Some (Count m)) \<Longrightarrow>
     map_of (byPrefix st) p
       = (if m + length (filter (\<lambda>k. prefix_segment k = p) ks) = 0 then None
          else Some (Count (m + length (filter (\<lambda>k. prefix_segment k = p) ks))))"
proof (induction ks arbitrary: st0 m)
  case Nil
  then show ?case by simp
next
  case (Cons k ks)
  from Cons.prems(1) obtain st1 where s1: "stats_step f c k st0 = Inr st1"
    and rest: "stats_loop f c ks st1 = Inr st"
    by (auto split: sum.splits)
  let ?m1 = "if prefix_segment k = p then m + 1 else m"
  from stats_step_byPrefix [OF s1 Cons.prems(2) Cons.prems(3)]
  have "map_of (byPrefix st1) p = (if ?m1 = 0 then None else Some (Count ?m1))"
    by auto
  from Cons.IH [OF rest Cons.prems(2) this] show ?case
    by auto
qed

lemma stats_loop_returns:
  "stats_loop f c ks st0 = Inr st \<Longrightarrow>
     list_all (\<lambda>k. \<exists>e s. map_of c k = Some e \<and> f (entry_value e) = Some s) ks"
proof (induction ks arbitrary: st0)
  case Nil
  then show ?case by simp
next
  case (Cons k ks)
  then show ?case
    by (auto simp: stats_step_def Let_def split: sum.splits option.splits)
qed

lemma stats_loop_succeeds:
  "list_all (\<lambda>k. \<exists>e s. map_of c k = Some e \<and> f (entry_value e) = Some s) ks \<Longrightarrow>
     \<exists>st. stats_loop f c ks st0 = Inr st"
proof (induction ks arbitrary: st0)
  case Nil
  then show ?case by simp
next
  case (Cons k ks)
  then show ?case
    by (auto simp: stats_step_def Let_def split: sum.splits option.splits)
qed

lemma stats_loop_expiry:
  "stats_loop f (map (\<lambda>(k, e). (k, e\<lparr>expiresAt := g k e\<rparr>)) c) ks st0 = stats_loop f c ks st0"
proof -
  have look: "map_of (map (\<lambda>(k, e). (k, e\<lparr>expiresAt := g k e\<rparr>)) c) k
                = map_option (\<lambda>e. e\<lparr>expiresAt := g k e\<rparr>) (map_of c k)" for k
    by (induction c) auto
  have step: "stats_step f (map (\<lambda>(k, e). (k, e\<lparr>expiresAt := g k e\<rparr>)) c) k st = stats_step f c k st" for k st
    by (cases "map_of c k") (simp_all add: stats_step_def look Let_def)
  show ?thesis
    by (induction ks arbitrary: st0) (auto simp: step split: sum.splits)
qed

lemma keys_expiry: "map fst (map (\<lambda>(k, e). (k, e\<lparr>expiresAt := g k e\<rparr>)) c) = map fst c"
  by (induction c) auto

lemma getCacheStats_expiry:
  "getCacheStats f (map (\<lambda>(k, e). (k, e\<lparr>expiresAt := g k e\<rparr>)) c) = getCacheStats f c"
  by (simp only: getCacheStats_def stats_loop_expiry keys_expiry)

lemma getCacheStats_total: "getCacheStats f c = Inr st \<Longrightarrow> totalEntries st = length c"
  by (auto simp: getCacheStats_def dest: stats_loop_total)

lemma delete_absent: "k \<notin> fst ` set c \<Longrightarrow> AList.delete k c = c"
  by (induction c) (auto simp: AList.delete_eq)

lemma delete_length: "distinct (map fst c) \<Longrightarrow> map_of c k = Some e \<Longrightarrow> Suc (length (AList.delete k c)) = length c"
proof (induction c)
  case Nil
  then show ?case by simp
next
  case (Cons a c)
  show ?case
  proof (cases "fst a = k")
    case True
    with Cons.prems have "k \<notin> fst ` set c" by auto
    then have "AList.delete k c = c" by (rule delete_absent)
    with True show ?thesis by (cases a) simp
  next
    case False
    with Cons show ?thesis by (cases a) auto
  qed
qed

lemma update_length_present: "k \<in> fst ` set c \<Longrightarrow> length (AList.update k e c) = length c"
  by (induction c) auto

lemma map_of_delete_other: "k' \<noteq> k \<Longrightarrow> map_of (AList.delete k' c) k = map_of c k"
  by (simp add: delete_conv')

lemma map_of_filter_keep: "P k \<Longrightarrow> map_of (filter (\<lambda>(k, e). P k) c) k = map_of c k"
  by (induction c) auto

subsection \<open>Keys, expiry, eviction and statistics\<close>




lemma getCacheStats_succeeds:
  assumes "list_all (\<lambda>(k, e). f (entry_value e) \<noteq> None) c"
  shows "\<exists>st. getCacheStats f c = Inr st"
proof -
  have "\<exists>e s. map_of c k = Some e \<and> f (entry_value e) = Some s" if "k \<in> set (map fst c)" for k
  proof -
    from that obtain e where e: "map_of c k = Some e"
      by (metis map_of_eq_None_iff not_Some_eq set_map)
    then have "(k, e) \<in> set c" by (rule map_of_SomeD)
    with assms have "f (entry_value e) \<noteq> None" by (auto simp: list_all_iff)
    with e show ?thesis by auto
  qed
  then have "list_all (\<lambda>k. \<exists>e s. map_of c k = Some e \<and> f (entry_value e) = Some s) (map fst c)"
    unfolding list_all_iff by blast
  then show ?thesis
    unfolding getCacheStats_def by (rule stats_loop_succeeds)
qed

text \<open>
  Claim C7. Each key is its namespace tag (\<open>salary\<close>, \<open>company\<close>, \<open>job\<close>), a
  colon, and the parts trimmed and lowercased, joined by colons. Parts that are equal
  after trimming and lowercasing give equal keys, a key does not change when its parts
  are normalised beforehand, and the keys of ("Foo  ", "BAR") and (" foo", "bar ") agree.
\<close>

theorem cache_keys_normalized:
  "generateCacheKey c j = lit ''salary:'' @ toLowerCase (trim c) @ lit '':'' @ toLowerCase (trim j)
   \<and> generateCompanyCacheKey c = lit ''company:'' @ toLowerCase (trim c)
   \<and> generateJobCacheKey j = lit ''job:'' @ toLowerCase (trim j)
   \<and> (toLowerCase (trim c) = toLowerCase (trim c') \<and> toLowerCase (trim j) = toLowerCase (trim j') \<longrightarrow>
        generateCacheKey c j = generateCacheKey c' j'
        \<and> generateCompanyCacheKey c = generateCompanyCacheKey c'
        \<and> generateJobCacheKey j = generateJobCacheKey j')
   \<and> generateCacheKey (toLowerCase (trim c)) (toLowerCase (trim j)) = generateCacheKey c j
   \<and> generateCacheKey (lit ''Foo  '') (lit ''BAR'') = generateCacheKey (lit '' foo'') (lit ''bar '')"
proof -
  have norm: "toLowerCase (trim (toLowerCase (trim s))) = toLowerCase (trim s)" for s
    by (simp add: trim_toLowerCase trim_idem toLowerCase_idem)
  have ex: "generateCacheKey (lit ''Foo  '') (lit ''BAR'') = generateCacheKey (lit '' foo'') (lit ''bar '')"
    by (simp add: generateCacheKey_def lit_def trim_def toLowerCase_def lower_unit_def is_space_def)
  show ?thesis
    using ex by (simp add: generateCacheKey_def generateCompanyCacheKey_def generateJobCacheKey_def norm)
qed

theorem cache_keys_normalized_witness:
  "toLowerCase (trim (lit ''Foo  '')) = toLowerCase (trim (lit '' foo''))
   \<and> toLowerCase (trim (lit ''BAR'')) = toLowerCase (trim (lit ''bar ''))
   \<and> generateCacheKey (lit ''Foo  '') (lit ''BAR'') = lit ''salary:foo:bar''
   \<and> generateCacheKey (lit '' foo'') (lit ''bar '') = lit ''salary:foo:bar''
   \<and> generateCompanyCacheKey (lit ''Foo  '') = generateCompanyCacheKey (lit '' foo'')
   \<and> generateJobCacheKey (lit ''BAR'') = generateJobCacheKey (lit ''bar '')"
proof -
  have c: "toLowerCase (trim (lit ''Foo  '')) = toLowerCase (trim (lit '' foo''))"
    by (simp add: lit_def trim_def toLowerCase_def lower_unit_def is_space_def)
  have j: "toLowerCase (trim (lit ''BAR'')) = toLowerCase (trim (lit ''bar ''))"
    by (simp add: lit_def trim_def toLowerCase_def lower_unit_def is_space_def)
  have k: "generateCacheKey (lit ''Foo  '') (lit ''BAR'') = lit ''salary:foo:bar''"
    by (simp add: generateCacheKey_def lit_def trim_def toLowerCase_def lower_unit_def is_space_def)
  have eqs: "generateCacheKey (lit ''Foo  '') (lit ''BAR'') = generateCacheKey (lit '' foo'') (lit ''bar '')
      \<and> generateCompanyCacheKey (lit ''Foo  '') = generateCompanyCacheKey (lit '' foo'')
      \<and> generateJobCacheKey (lit ''BAR'') = generateJobCacheKey (lit ''bar '')"
    using c j cache_keys_normalized [where c = "lit ''Foo  ''" and j = "lit ''BAR''"
        and c' = "lit '' foo''" and j' = "lit ''bar ''"]
    by blast
  from eqs k have "generateCacheKey (lit '' foo'') (lit ''bar '') = lit ''salary:foo:bar''"
    by metis
  with c j k eqs show ?thesis
    by blast
qed

lemma colon_key:
  assumes "58 \<in> set key"
  shows "key \<noteq> lit ''__proto__''" "key \<noteq> lit ''value''" "key \<noteq> lit ''expiresAt''"
    "key \<notin> set object_prototype_functions"
  using assms by (auto simp: lit_def object_prototype_functions_def)

lemma cache_slot_colon:
  "58 \<in> set key \<Longrightarrow>
     cache_slot S key = (case map_of (own_entries S) key of Some e \<Rightarrow> Entry e | None \<Rightarrow> Missing)"
  by (simp add: cache_slot_def colon_key split: option.splits)

lemma getCacheValue_object_colon:
  assumes "58 \<in> set key"
  shows "getCacheValue_object rt key now S
           = (Inr (fst (getCacheValue key now (own_entries S))),
              S\<lparr>own_entries := snd (getCacheValue key now (own_entries S))\<rparr>)"
  by (simp add: getCacheValue_object_def getCacheValue_def cache_slot_colon [OF assms] split: option.splits)

lemma setCacheValue_object_colon:
  assumes "58 \<in> set key"
  shows "setCacheValue_object key v ttl now S
           = S\<lparr>own_entries := setCacheValue key v ttl now (own_entries S)\<rparr>"
  using colon_key(1) [OF assms] by (simp add: setCacheValue_object_def Let_def)

lemma generated_keys_colon:
  "58 \<in> set (generateCacheKey c j)" "58 \<in> set (generateCompanyCacheKey c)" "58 \<in> set (generateJobCacheKey j)"
  by (simp_all add: generateCacheKey_def generateCompanyCacheKey_def generateJobCacheKey_def lit_def)

lemma getCacheStats_returns:
  assumes "getCacheStats f c = Inr st"
  shows "list_all (\<lambda>k. \<exists>e s. map_of c k = Some e \<and> f (entry_value e) = Some s) (map fst c)"
  using assms unfolding getCacheStats_def by (rule stats_loop_returns)

lemma getCacheStats_delete:
  assumes "getCacheStats f c = Inr st"
  shows "\<exists>st'. getCacheStats f (AList.delete k c) = Inr st'"
proof -
  have all: "\<exists>e s. map_of c k' = Some e \<and> f (entry_value e) = Some s" if "k' \<in> fst ` set c" for k'
    using getCacheStats_returns [OF assms] that by (auto simp: list_all_iff)
  have "\<exists>e s. map_of (AList.delete k c) k' = Some e \<and> f (entry_value e) = Some s"
    if "k' \<in> set (map fst (AList.delete k c))" for k'
  proof -
    from that have ne: "k' \<noteq> k" and mem: "k' \<in> fst ` set c"
      by (auto simp: AList.delete_eq)
    from all [OF mem] ne show ?thesis
      by (simp add: delete_conv')
  qed
  then have "list_all (\<lambda>k'. \<exists>e s. map_of (AList.delete k c) k' = Some e \<and> f (entry_value e) = Some s)
               (map fst (AList.delete k c))"
    unfolding list_all_iff by blast
  then show ?thesis
    unfolding getCacheStats_def by (rule stats_loop_succeeds)
qed

text \<open>
  Claim C2, as amended. After \<open>setCacheValue(k, v, 60)\<close> at the time \<open>t\<close>, a read of
  \<open>k\<close> at any time up to and including \<open>t + 60000\<close> ms returns \<open>v\<close> and leaves the
  cache as it is; a read strictly later returns \<open>null\<close> and deletes the own property
  \<open>k\<close>, so that \<open>k\<close> is no key of the cache afterwards. For a key other than
  \<open>__proto__\<close>, a \<open>getCacheStats()\<close> that returned before such a late read returns
  after it as well, with \<open>totalEntries\<close> one less. Whatever entry a read finds, its
  value is returned only while the time is not past its \<open>expiresAt\<close>.
\<close>

theorem cache_roundtrip_ttl:
  "(now \<le> t + 60000 \<longrightarrow>
      getCacheValue_object rt k now (setCacheValue_object k v (Some 60) t S)
        = (Inr (Some v), setCacheValue_object k v (Some 60) t S))
   \<and> (now > t + 60000 \<longrightarrow>
        getCacheValue_object rt k now (setCacheValue_object k v (Some 60) t S)
          = (Inr None,
             (setCacheValue_object k v (Some 60) t S)
               \<lparr>own_entries := AList.delete k (own_entries (setCacheValue_object k v (Some 60) t S))\<rparr>)
        \<and> k \<notin> fst ` set (own_entries (snd (getCacheValue_object rt k now (setCacheValue_object k v (Some 60) t S))))
        \<and> (k \<noteq> lit ''__proto__'' \<and> distinct (map fst (own_entries S))
             \<and> getCacheStats f (own_entries (setCacheValue_object k v (Some 60) t S)) = Inr st
            \<longrightarrow> (\<exists>st'. getCacheStats f
                          (own_entries (snd (getCacheValue_object rt k now (setCacheValue_object k v (Some 60) t S))))
                        = Inr st'
                      \<and> totalEntries st' + 1 = totalEntries st)))
   \<and> (cache_slot S k = Entry e \<longrightarrow>
        getCacheValue_object rt k now S
          = (if now > expiresAt e then (Inr None, S\<lparr>own_entries := AList.delete k (own_entries S)\<rparr>)
             else (Inr (Some (entry_value e)), S)))"
proof -
  let ?S1 = "setCacheValue_object k v (Some 60) t S"
  let ?e = "\<lparr>entry_value = v, expiresAt = t + 60000\<rparr>"
  let ?S2 = "?S1\<lparr>own_entries := AList.delete k (own_entries ?S1)\<rparr>"
  have slot: "cache_slot ?S1 k = Entry ?e"
    by (simp add: cache_slot_def setCacheValue_object_def setCacheValue_def map_of_update_same)
  have live: "getCacheValue_object rt k now ?S1 = (Inr (Some v), ?S1)" if "now \<le> t + 60000"
    using that by (simp add: getCacheValue_object_def slot)
  have gone: "getCacheValue_object rt k now ?S1 = (Inr None, ?S2)" if "now > t + 60000"
    using that by (simp add: getCacheValue_object_def slot)
  have absent: "k \<notin> fst ` set (own_entries ?S2)"
    by (simp add: AList.delete_eq image_iff)
  have count: "\<exists>st'. getCacheStats f (own_entries ?S2) = Inr st' \<and> totalEntries st' + 1 = totalEntries st"
    if "k \<noteq> lit ''__proto__''" "distinct (map fst (own_entries S))" "getCacheStats f (own_entries ?S1) = Inr st"
  proof -
    from that(1) have own1: "own_entries ?S1 = AList.update k ?e (own_entries S)"
      by (simp add: setCacheValue_object_def setCacheValue_def)
    have look: "map_of (own_entries ?S1) k = Some ?e"
      by (simp add: own1 map_of_update_same)
    from that(2) have "distinct (map fst (own_entries ?S1))"
      by (simp add: own1 distinct_update)
    then have len: "Suc (length (AList.delete k (own_entries ?S1))) = length (own_entries ?S1)"
      using look by (rule delete_length)
    from getCacheStats_delete [OF that(3)] obtain st'
      where st': "getCacheStats f (AList.delete k (own_entries ?S1)) = Inr st'"
      by blast
    from st' that(3) len have "totalEntries st' + 1 = totalEntries st"
      by (simp add: getCacheStats_total)
    with st' show ?thesis by simp
  qed
  have sound: "getCacheValue_object rt k now S
          = (if now > expiresAt e then (Inr None, S\<lparr>own_entries := AList.delete k (own_entries S)\<rparr>)
             else (Inr (Some (entry_value e)), S))"
    if "cache_slot S k = Entry e"
    using that by (simp add: getCacheValue_object_def)
  show ?thesis
    using live gone absent count sound by simp
qed

text \<open>
  Exactly 60 seconds after the write the entry is still served: the test of
  \<open>getCacheValue\<close> is \<open>Date.now() > entry.expiresAt\<close>.
\<close>

theorem cache_roundtrip_at_expiry_counterexample:
  "getCacheValue_object bare_runtime (lit ''k'') 60000
       (setCacheValue_object (lit ''k'') (JNum 7) (Some 60) 0 empty_store)
     = (Inr (Some (JNum 7)),
        \<lparr>own_entries = [(lit ''k'', \<lparr>entry_value = JNum 7, expiresAt = 60000\<rparr>)], proto_entry = None\<rparr>)"
  by (simp add: getCacheValue_object_def setCacheValue_object_def setCacheValue_def cache_slot_def
      empty_store_def lit_def)

theorem cache_roundtrip_ttl_witness:
  "getCacheValue_object bare_runtime (lit ''k'') 0
       (setCacheValue_object (lit ''k'') (JStr (lit ''v'')) (Some 60) 0 empty_store)
     = (Inr (Some (JStr (lit ''v''))),
        \<lparr>own_entries = [(lit ''k'', \<lparr>entry_value = JStr (lit ''v''), expiresAt = 60000\<rparr>)],
         proto_entry = None\<rparr>)
   \<and> (60001::int) > 0 + 60000
   \<and> getCacheValue_object bare_runtime (lit ''k'') 60001
         (setCacheValue_object (lit ''k'') (JStr (lit ''v'')) (Some 60) 0 empty_store)
       = (Inr None, empty_store)
   \<and> lit ''k'' \<noteq> lit ''__proto__''
   \<and> distinct (map fst (own_entries empty_store))
   \<and> getCacheStats stringify_plain
         (own_entries (setCacheValue_object (lit ''k'') (JStr (lit ''v'')) (Some 60) 0 empty_store))
       = Inr \<lparr>totalEntries = 1, byPrefix = [(lit ''k'', Count 1)], memoryUsageEstimate = 6\<rparr>
   \<and> getCacheStats stringify_plain
         (own_entries (snd (getCacheValue_object bare_runtime (lit ''k'') 60001
            (setCacheValue_object (lit ''k'') (JStr (lit ''v'')) (Some 60) 0 empty_store))))
       = Inr \<lparr>totalEntries = 0, byPrefix = [], memoryUsageEstimate = 0\<rparr>
   \<and> cache_slot (setCacheValue_object (lit ''__proto__'') (JStr (lit ''v'')) (Some 60) 0 empty_store)
         (lit ''__proto__'')
       = Entry \<lparr>entry_value = JStr (lit ''v''), expiresAt = 60000\<rparr>
   \<and> getCacheValue_object bare_runtime (lit ''__proto__'') 60001
         (setCacheValue_object (lit ''__proto__'') (JStr (lit ''v'')) (Some 60) 0 empty_store)
       = (Inr None,
          \<lparr>own_entries = [], proto_entry = Some \<lparr>entry_value = JStr (lit ''v''), expiresAt = 60000\<rparr>\<rparr>)"
proof -
  let ?v = "JStr (lit ''v'')"
  let ?e = "\<lparr>entry_value = ?v, expiresAt = 60000\<rparr>"
  let ?S1 = "setCacheValue_object (lit ''k'') ?v (Some 60) 0 empty_store"
  let ?P1 = "setCacheValue_object (lit ''__proto__'') ?v (Some 60) 0 empty_store"
  let ?st = "\<lparr>totalEntries = 1, byPrefix = [(lit ''k'', Count 1)], memoryUsageEstimate = 6\<rparr>"
  have ne: "lit ''k'' \<noteq> lit ''__proto__''"
    by (simp add: lit_def)
  have S1: "?S1 = \<lparr>own_entries = [(lit ''k'', ?e)], proto_entry = None\<rparr>"
    using ne by (simp add: setCacheValue_object_def setCacheValue_def empty_store_def)
  have P1: "?P1 = \<lparr>own_entries = [], proto_entry = Some ?e\<rparr>"
    by (simp add: setCacheValue_object_def empty_store_def)
  have dist: "distinct (map fst (own_entries empty_store))"
    by (simp add: empty_store_def)
  have s1: "getCacheStats stringify_plain (own_entries ?S1) = Inr ?st"
    unfolding S1
    by (simp add: getCacheStats_def stats_step_def bump_def inherited_text_def prefix_segment_def
        stringify_plain_def object_prototype_functions_def lit_def)
  have slot: "cache_slot ?P1 (lit ''__proto__'') = Entry ?e"
    unfolding P1 by (simp add: cache_slot_def)
  note k_late = cache_roundtrip_ttl [where k = "lit ''k''" and v = ?v and t = 0 and S = empty_store
      and now = 60001 and rt = bare_runtime and f = stringify_plain and st = ?st]
  have live: "getCacheValue_object bare_runtime (lit ''k'') 0 ?S1 = (Inr (Some ?v), ?S1)"
    using cache_roundtrip_ttl [where k = "lit ''k''" and v = ?v and t = 0 and S = empty_store
        and now = 0 and rt = bare_runtime]
    by simp
  have late0: "getCacheValue_object bare_runtime (lit ''k'') 60001 ?S1
                 = (Inr None, ?S1\<lparr>own_entries := AList.delete (lit ''k'') (own_entries ?S1)\<rparr>)"
    using k_late by simp
  have late: "getCacheValue_object bare_runtime (lit ''k'') 60001 ?S1 = (Inr None, empty_store)"
    using late0 unfolding S1 by (simp add: empty_store_def AList.delete_eq)
  have s0: "getCacheStats stringify_plain
              (own_entries (snd (getCacheValue_object bare_runtime (lit ''k'') 60001 ?S1)))
            = Inr \<lparr>totalEntries = 0, byPrefix = [], memoryUsageEstimate = 0\<rparr>"
    unfolding late by (simp add: getCacheStats_def empty_store_def)
  have proto_late: "getCacheValue_object bare_runtime (lit ''__proto__'') 60001 ?P1 = (Inr None, ?P1)"
    using cache_roundtrip_ttl [where k = "lit ''__proto__''" and v = ?v and t = 0 and S = empty_store
        and now = 60001 and rt = bare_runtime]
    by (simp add: P1)
  from live late ne dist s1 s0 slot proto_late show ?thesis
    by (simp add: S1 P1)
qed




lemma frame_get:
  assumes "k \<noteq> lit ''__proto__''" "map_of (own_entries S) k = Some e"
  shows "map_of (own_entries (snd (getCacheValue_object rt k' now S))) k
           = (if k' = k \<and> now > expiresAt e then None else Some e)"
proof (cases "k' = k")
  case True
  with assms have "cache_slot S k' = Entry e"
    by (simp add: cache_slot_def)
  with True assms show ?thesis
    by (simp add: getCacheValue_object_def delete_conv')
next
  case False
  then have "map_of (AList.delete k' (own_entries S)) k = Some e"
    using assms(2) by (simp add: map_of_delete_other)
  with False assms show ?thesis
    by (cases "cache_slot S k'")
      (auto simp: getCacheValue_object_def split: sum.splits if_splits)
qed

lemma frame_set:
  assumes "k \<noteq> lit ''__proto__''" "map_of (own_entries S) k = Some e"
  shows "map_of (own_entries (setCacheValue_object k' v ttl now S)) k
           = (if k' = k
              then Some \<lparr>entry_value = v, expiresAt = now + (case ttl of None \<Rightarrow> 86400 | Some s \<Rightarrow> s) * 1000\<rparr>
              else Some e)"
  using assms by (auto simp: setCacheValue_object_def setCacheValue_def Let_def update_conv')

lemma frame_clear:
  assumes "map_of c k = Some e"
  shows "map_of (clearCache pre c) k
           = (if (case pre of None \<Rightarrow> True | Some q \<Rightarrow> startsWith k q) then None else Some e)"
proof (cases pre)
  case None
  then show ?thesis by (simp add: clearCache_all)
next
  case (Some q)
  show ?thesis
  proof (cases "q = []")
    case True
    with Some show ?thesis by (simp add: clearCache_empty_prefix)
  next
    case False
    have gone: "map_of (filter (\<lambda>(k, e). \<not> startsWith k q) c) k = None" if "startsWith k q"
      using that by (induction c) auto
    from False Some assms show ?thesis
      by (auto simp: clearCache_prefix gone map_of_filter_keep [where P = "\<lambda>k. \<not> startsWith k q"])
  qed
qed

text \<open>
  Claim C10, as amended. \<open>getCacheStats\<close> gives the same result whatever the
  \<open>expiresAt\<close> of the entries: \<open>totalEntries\<close> is the number of own properties of
  the cache, \<open>memoryUsageEstimate\<close> the sum over all of them, \<open>byPrefix\<close> holds, for
  every prefix segment that names no member of \<open>Object.prototype\<close>, the count of the
  keys with that segment, and it returns whenever every stored value can be serialised.
  An entry, expired or not, that is an own property is still there unchanged after a call
  of the cache module unless the call is \<open>getCacheValue\<close> on its key after its expiry,
  \<open>setCacheValue\<close> on its key, or \<open>clearCache\<close> without a prefix or with a prefix
  that its key starts with; and each of these three removes or replaces it.
\<close>

theorem getCacheStats_ignores_expiry:
  "getCacheStats f (map (\<lambda>(k, e). (k, e\<lparr>expiresAt := g k e\<rparr>)) c) = getCacheStats f c
   \<and> (getCacheStats f c = Inr st \<longrightarrow>
        totalEntries st = length c
        \<and> memoryUsageEstimate st = sum_list (map (entry_size f c) (map fst c))
        \<and> (inherited_text p = None \<longrightarrow>
             map_of (byPrefix st) p
               = (if length (filter (\<lambda>k. prefix_segment k = p) (map fst c)) = 0 then None
                  else Some (Count (length (filter (\<lambda>k. prefix_segment k = p) (map fst c)))))))
   \<and> (list_all (\<lambda>(k, e). f (entry_value e) \<noteq> None) c \<longrightarrow> (\<exists>st. getCacheStats f c = Inr st))
   \<and> (k \<noteq> lit ''__proto__'' \<and> map_of (own_entries S) k = Some e
        \<and> map_of (own_entries (run_call rt call S)) k \<noteq> Some e \<longrightarrow>
          (\<exists>now. call = GetCacheValue k now \<and> now > expiresAt e)
        \<or> (\<exists>v ttl now. call = SetCacheValue k v ttl now)
        \<or> call = ClearCache None
        \<or> (\<exists>q. call = ClearCache (Some q) \<and> startsWith k q))
   \<and> (k \<noteq> lit ''__proto__'' \<and> map_of (own_entries S) k = Some e \<longrightarrow>
        map_of (own_entries (run_call rt (GetCacheValue k now) S)) k
          = (if now > expiresAt e then None else Some e)
        \<and> map_of (own_entries (run_call rt (SetCacheValue k v ttl now) S)) k
            = Some \<lparr>entry_value = v, expiresAt = now + (case ttl of None \<Rightarrow> 86400 | Some s \<Rightarrow> s) * 1000\<rparr>
        \<and> map_of (own_entries (run_call rt (ClearCache None) S)) k = None
        \<and> (startsWith k q \<longrightarrow> map_of (own_entries (run_call rt (ClearCache (Some q)) S)) k = None))"
proof -
  have stats: "totalEntries st = length c
      \<and> memoryUsageEstimate st = sum_list (map (entry_size f c) (map fst c))
      \<and> (inherited_text p = None \<longrightarrow>
             map_of (byPrefix st) p
               = (if length (filter (\<lambda>k. prefix_segment k = p) (map fst c)) = 0 then None
                  else Some (Count (length (filter (\<lambda>k. prefix_segment k = p) (map fst c))))))"
    if "getCacheStats f c = Inr st"
  proof -
    from that have loop: "stats_loop f c (map fst c) \<lparr>totalEntries = 0, byPrefix = [], memoryUsageEstimate = 0\<rparr> = Inr st"
      by (simp add: getCacheStats_def)
    have mem: "memoryUsageEstimate st = sum_list (map (entry_size f c) (map fst c))"
      using stats_loop_memory [OF loop] by simp
    have pre: "map_of (byPrefix st) p
               = (if length (filter (\<lambda>k. prefix_segment k = p) (map fst c)) = 0 then None
                  else Some (Count (length (filter (\<lambda>k. prefix_segment k = p) (map fst c)))))"
      if "inherited_text p = None"
      using stats_loop_byPrefix [OF loop that, where m = 0] by simp
    from mem pre getCacheStats_total [OF \<open>getCacheStats f c = Inr st\<close>] show ?thesis
      by blast
  qed
  have frame: "(\<exists>now. call = GetCacheValue k now \<and> now > expiresAt e)
        \<or> (\<exists>v ttl now. call = SetCacheValue k v ttl now)
        \<or> call = ClearCache None
        \<or> (\<exists>q. call = ClearCache (Some q) \<and> startsWith k q)"
    if k: "k \<noteq> lit ''__proto__''" and look: "map_of (own_entries S) k = Some e"
      and changed: "map_of (own_entries (run_call rt call S)) k \<noteq> Some e"
  proof (cases call)
    case (GetCacheValue k' now)
    with changed frame_get [OF k look, of rt k' now] show ?thesis
      by (simp add: run_call_def split: if_splits)
  next
    case (SetCacheValue k' v ttl now)
    with changed frame_set [OF k look, of k' v ttl now] show ?thesis
      by (simp add: run_call_def split: if_splits)
  next
    case (ClearCache pre)
    with changed frame_clear [OF look, of pre] show ?thesis
      by (cases pre) (simp_all add: run_call_def split: if_splits)
  next
    case GetCacheStats
    with changed look show ?thesis
      by (simp add: run_call_def)
  qed
  have effect: "map_of (own_entries (run_call rt (GetCacheValue k now) S)) k
          = (if now > expiresAt e then None else Some e)
        \<and> map_of (own_entries (run_call rt (SetCacheValue k v ttl now) S)) k
            = Some \<lparr>entry_value = v, expiresAt = now + (case ttl of None \<Rightarrow> 86400 | Some s \<Rightarrow> s) * 1000\<rparr>
        \<and> map_of (own_entries (run_call rt (ClearCache None) S)) k = None
        \<and> (startsWith k q \<longrightarrow> map_of (own_entries (run_call rt (ClearCache (Some q)) S)) k = None)"
    if k: "k \<noteq> lit ''__proto__''" and look: "map_of (own_entries S) k = Some e"
    using frame_get [OF k look, of rt k now] frame_set [OF k look, of k v ttl now]
      frame_clear [OF look, of None] frame_clear [OF look, of "Some q"]
    by (simp add: run_call_def)
  show ?thesis
    using getCacheStats_expiry [of f g c] stats getCacheStats_succeeds [of f c] frame effect
    by blast
qed

text \<open>
  An expired entry leaves the statistics without a read of its key and without
  \<open>clearCache\<close>: \<open>setCacheValue\<close> on its key overwrites it, after which the same key
  is counted with a live entry and the bytes of the new value.
\<close>

theorem expired_entry_overwritten_counterexample:
  "getCacheStats stringify_plain
       (own_entries \<lparr>own_entries = [(lit ''job:x'', \<lparr>entry_value = JStr (lit ''old''), expiresAt = 5\<rparr>)],
                     proto_entry = None\<rparr>)
     = Inr \<lparr>totalEntries = 1, byPrefix = [(lit ''job'', Count 1)], memoryUsageEstimate = 10\<rparr>
   \<and> own_entries (run_call bare_runtime (SetCacheValue (lit ''job:x'') (JStr (lit ''n'')) (Some 60) 100)
         \<lparr>own_entries = [(lit ''job:x'', \<lparr>entry_value = JStr (lit ''old''), expiresAt = 5\<rparr>)],
          proto_entry = None\<rparr>)
       = [(lit ''job:x'', \<lparr>entry_value = JStr (lit ''n''), expiresAt = 60100\<rparr>)]
   \<and> getCacheStats stringify_plain [(lit ''job:x'', \<lparr>entry_value = JStr (lit ''n''), expiresAt = 60100\<rparr>)]
       = Inr \<lparr>totalEntries = 1, byPrefix = [(lit ''job'', Count 1)], memoryUsageEstimate = 6\<rparr>"
  by (simp add: getCacheStats_def stats_step_def bump_def inherited_text_def prefix_segment_def
      stringify_plain_def object_prototype_functions_def run_call_def setCacheValue_object_def
      setCacheValue_def lit_def)

theorem getCacheStats_ignores_expiry_witness:
  "getCacheStats stringify_plain [(lit ''job:x'', \<lparr>entry_value = JStr (lit ''old''), expiresAt = 5\<rparr>)]
     = Inr \<lparr>totalEntries = 1, byPrefix = [(lit ''job'', Count 1)], memoryUsageEstimate = 10\<rparr>
   \<and> inherited_text (lit ''job'') = None
   \<and> map_of (byPrefix \<lparr>totalEntries = 1, byPrefix = [(lit ''job'', Count 1)], memoryUsageEstimate = 10\<rparr>)
        (lit ''job'') = Some (Count 1)
   \<and> list_all (\<lambda>(k, e). stringify_plain (entry_value e) \<noteq> None)
        [(lit ''job:x'', \<lparr>entry_value = JStr (lit ''old''), expiresAt = 5\<rparr>)]
   \<and> lit ''job:x'' \<noteq> lit ''__proto__''
   \<and> map_of (own_entries \<lparr>own_entries = [(lit ''job:x'', \<lparr>entry_value = JStr (lit ''old''), expiresAt = 5\<rparr>)],
                            proto_entry = None\<rparr>) (lit ''job:x'')
       = Some \<lparr>entry_value = JStr (lit ''old''), expiresAt = 5\<rparr>
   \<and> map_of (own_entries (run_call bare_runtime (GetCacheValue (lit ''job:x'') 100)
         \<lparr>own_entries = [(lit ''job:x'', \<lparr>entry_value = JStr (lit ''old''), expiresAt = 5\<rparr>)],
          proto_entry = None\<rparr>)) (lit ''job:x'') = None
   \<and> map_of (own_entries (run_call bare_runtime (GetCacheValue (lit ''job:x'') 5)
         \<lparr>own_entries = [(lit ''job:x'', \<lparr>entry_value = JStr (lit ''old''), expiresAt = 5\<rparr>)],
          proto_entry = None\<rparr>)) (lit ''job:x'')
       = Some \<lparr>entry_value = JStr (lit ''old''), expiresAt = 5\<rparr>
   \<and> map_of (own_entries (run_call bare_runtime (SetCacheValue (lit ''job:x'') (JStr (lit ''n'')) (Some 60) 100)
         \<lparr>own_entries = [(lit ''job:x'', \<lparr>entry_value = JStr (lit ''old''), expiresAt = 5\<rparr>)],
          proto_entry = None\<rparr>)) (lit ''job:x'')
       = Some \<lparr>entry_value = JStr (lit ''n''), expiresAt = 60100\<rparr>
   \<and> startsWith (lit ''job:x'') (lit ''job'')
   \<and> map_of (own_entries (run_call bare_runtime (ClearCache (Some (lit ''job'')))
         \<lparr>own_entries = [(lit ''job:x'', \<lparr>entry_value = JStr (lit ''old''), expiresAt = 5\<rparr>)],
          proto_entry = None\<rparr>)) (lit ''job:x'') = None"
proof -
  let ?e = "\<lparr>entry_value = JStr (lit ''old''), expiresAt = 5\<rparr>"
  let ?c = "[(lit ''job:x'', ?e)]"
  let ?S = "\<lparr>own_entries = ?c, proto_entry = None\<rparr>"
  let ?st = "\<lparr>totalEntries = 1, byPrefix = [(lit ''job'', Count 1)], memoryUsageEstimate = 10\<rparr>"
  have st: "getCacheStats stringify_plain ?c = Inr ?st"
    by (simp add: getCacheStats_def stats_step_def bump_def inherited_text_def prefix_segment_def
        stringify_plain_def object_prototype_functions_def lit_def)
  have inh: "inherited_text (lit ''job'') = None"
    by (simp add: inherited_text_def object_prototype_functions_def lit_def)
  have all: "list_all (\<lambda>(k, e). stringify_plain (entry_value e) \<noteq> None) ?c"
    by (simp add: stringify_plain_def)
  have ne: "lit ''job:x'' \<noteq> lit ''__proto__''"
    by (simp add: lit_def)
  have look: "map_of (own_entries ?S) (lit ''job:x'') = Some ?e"
    by simp
  have pre: "startsWith (lit ''job:x'') (lit ''job'')"
    by (simp add: lit_def)
  note inst = getCacheStats_ignores_expiry [where f = stringify_plain and c = ?c and st = ?st
      and p = "lit ''job''" and S = ?S and k = "lit ''job:x''" and e = ?e and rt = bare_runtime
      and q = "lit ''job''" and v = "JStr (lit ''n'')" and ttl = "Some 60"]
  have counted: "map_of (byPrefix ?st) (lit ''job'') = Some (Count 1)"
    by simp
  have late: "map_of (own_entries (run_call bare_runtime (GetCacheValue (lit ''job:x'') 100) ?S)) (lit ''job:x'') = None"
    using inst [where now = 100] ne look by simp
  have early: "map_of (own_entries (run_call bare_runtime (GetCacheValue (lit ''job:x'') 5) ?S)) (lit ''job:x'') = Some ?e"
    using inst [where now = 5] ne look by simp
  have over: "map_of (own_entries (run_call bare_runtime (SetCacheValue (lit ''job:x'') (JStr (lit ''n'')) (Some 60) 100) ?S))
                (lit ''job:x'') = Some \<lparr>entry_value = JStr (lit ''n''), expiresAt = 60100\<rparr>"
    using inst [where now = 100] ne look by simp
  have cleared: "map_of (own_entries (run_call bare_runtime (ClearCache (Some (lit ''job''))) ?S)) (lit ''job:x'') = None"
    using inst [where now = 100] ne look pre by simp
  from st inh counted all ne look late early over pre cleared show ?thesis
    by blast
qed

section \<open>Facts about the formatting helpers\<close>

lemma formatName_unfold:
  "formatName name = filter (\<lambda>u. is_word u \<or> is_space u) (trim (takeWhile (\<lambda>u. u \<noteq> 44 \<and> u \<noteq> 40) name))"
  by (simp add: formatName_def trim_def)

lemma word_or_space: "(is_word u \<or> is_space u) = ((is_alphanumeric u \<or> is_space u) \<or> u = 95)"
  by (auto simp: is_word_def is_alphanumeric_def)

text \<open>
  Claim C6. The code keeps the underscore, which is neither alphanumeric nor white space:
  \<open>formatName("a_b")\<close> is \<open>"a_b"\<close>, where the sanitizer of the specification gives
  \<open>"ab"\<close>. The two differ by the underscores only, and agree on the three examples.
\<close>

theorem formatName_keeps_underscore:
  "formatName (lit ''a_b'') = lit ''a_b''
   \<and> spec_formatName (lit ''a_b'') = lit ''ab''
   \<and> spec_formatName name = filter (\<lambda>u. u \<noteq> 95) (formatName name)
   \<and> formatName (lit ''Google, Inc.'') = lit ''Google''
   \<and> formatName (lit ''Example (UK) Ltd'') = lit ''Example''
   \<and> formatName [] = []"
proof -
  have general: "spec_formatName name = filter (\<lambda>u. u \<noteq> 95) (formatName name)"
    unfolding formatName_unfold spec_formatName_def filter_filter word_or_space
    by (rule filter_cong) (auto simp: is_alphanumeric_def is_space_def)
  have a: "formatName (lit ''a_b'') = lit ''a_b''"
    by (simp add: formatName_def lit_def trim_def is_space_def is_word_def)
  have b: "spec_formatName (lit ''a_b'') = lit ''ab''"
    by (simp add: spec_formatName_def lit_def trim_def is_space_def is_alphanumeric_def)
  have g: "formatName (lit ''Google, Inc.'') = lit ''Google''"
    by (simp add: formatName_def lit_def trim_def is_space_def is_word_def)
  have e: "formatName (lit ''Example (UK) Ltd'') = lit ''Example''"
    by (simp add: formatName_def lit_def trim_def is_space_def is_word_def)
  from general a b g e show ?thesis
    by (simp add: formatName_def)
qed

lemma safe_integer_int: "safe_integer (of_int n) = (\<bar>n\<bar> \<le> 9007199254740991)"
proof -
  have "(\<bar>of_int n :: rat\<bar> \<le> 9007199254740991) = (\<bar>n\<bar> \<le> 9007199254740991)"
    by (metis of_int_abs of_int_le_iff of_int_numeral)
  then show ?thesis
    by (simp add: safe_integer_def)
qed

lemma number_text_int:
  "\<bar>k\<bar> \<le> 9007199254740991 \<Longrightarrow> number_text rt (Finite (of_int k)) = show_int k"
  by (simp add: number_text_def safe_integer_int)

lemma Math_round_nearest: "of_int (Math_round x) \<le> x + 1 / 2 \<and> x + 1 / 2 < of_int (Math_round x) + 1"
  unfolding Math_round_def by linarith

lemma symbol_table:
  "symbol_for (lit ''INR'') = [8377] \<and> symbol_for (lit ''GBP'') = [163] \<and> symbol_for (lit ''USD'') = lit ''$''
   \<and> symbol_for (lit ''EUR'') = [8364] \<and> symbol_for (lit ''JPY'') = [165]
   \<and> symbol_for (lit ''AUD'') = lit ''A$'' \<and> symbol_for (lit ''CAD'') = lit ''C$''"
  by (simp add: symbol_for_def currencySymbols_def lit_def)

lemma symbol_unknown:
  "code \<notin> {lit ''INR'', lit ''GBP'', lit ''USD'', lit ''EUR'', lit ''JPY'', lit ''AUD'', lit ''CAD''}
     \<Longrightarrow> code \<noteq> lit ''__proto__'' \<Longrightarrow> code \<notin> set object_prototype_functions
     \<Longrightarrow> symbol_for code = []"
  by (simp add: symbol_for_def currencySymbols_def inherited_text_def)

lemma symbol_inherited:
  "code \<in> set object_prototype_functions \<Longrightarrow> symbol_for code = function_text code"
  "symbol_for (lit ''__proto__'') = lit ''[object Object]''"
  by (auto simp: symbol_for_def currencySymbols_def inherited_text_def object_prototype_functions_def lit_def)

lemma formatSalary_number:
  "formatSalary rt (JNum n) (JStr code) =
     Inr (if n = 0 then lit ''N/A''
          else if n \<ge> 10000000 then
            symbol_for code @ number_text rt (Finite (of_int (Math_round (n / 10000000)))) @ lit '' cr''
          else if n \<ge> 100000 then
            symbol_for code @ number_text rt (Finite (of_int (Math_round (n / 100000)))) @ lit '' lakh''
          else if n \<ge> 1000 then
            symbol_for code @ number_text rt (Finite (of_int (Math_round (n / 1000)))) @ lit '' k''
          else symbol_for code @ number_text rt (Finite n))"
  by (simp add: formatSalary_def and_then_def)

lemma formatSalary_falsy: "\<not> truthy a \<Longrightarrow> formatSalary rt a cur = Inr (lit ''N/A'')"
  by (simp add: formatSalary_def)

lemma rounded_amounts:
  "Math_round (6 / 5) = 1" "Math_round (5 / 2) = 3" "Math_round 5 = 5"
  "Math_round (2469 / 2000) = 1" "Math_round 80 = 80" "Math_round 1 = 1"
  by code_simp+

lemma small_texts:
  "number_text rt (Finite 1) = [49]" "number_text rt (Finite 3) = [51]" "number_text rt (Finite 5) = [53]"
  "number_text rt (Finite 80) = [56, 48]" "number_text rt (Finite 500) = [53, 48, 48]"
proof -
  have d: "number_text rt (Finite (of_int k)) = digits (nat k)" if "0 \<le> k" "k \<le> 1000" for k
    using that by (simp add: number_text_int show_int_def)
  show "number_text rt (Finite 1) = [49]" using d [of 1] by (simp add: digits.simps)
  show "number_text rt (Finite 3) = [51]" using d [of 3] by (simp add: digits.simps)
  show "number_text rt (Finite 5) = [53]" using d [of 5] by (simp add: digits.simps)
  show "number_text rt (Finite 80) = [56, 48]" using d [of 80] by (simp add: digits.simps)
  show "number_text rt (Finite 500) = [53, 48, 48]" using d [of 500] by (simp add: digits.simps)
qed

lemma formatSalary_examples:
  "formatSalary rt (JNum 12000000) (JStr (lit ''USD'')) = Inr (lit ''$1 cr'')
   \<and> formatSalary rt (JNum 250000) (JStr (lit ''INR'')) = Inr (8377 # lit ''3 lakh'')
   \<and> formatSalary rt (JNum 5000) (JStr (lit ''EUR'')) = Inr (8364 # lit ''5 k'')
   \<and> formatSalary rt (JNum 0) (JStr (lit ''USD'')) = Inr (lit ''N/A'')
   \<and> formatSalary rt (JNum 500) (JStr (lit ''ZZZ'')) = Inr (lit ''500'')
   \<and> formatSalary rt (JNum (2469 / 2)) (JStr (lit ''USD'')) = Inr (lit ''$1 k'')
   \<and> formatSalary rt (JNum 5000) (JStr (lit ''constructor''))
       = Inr (lit ''function Object() { [native code] }5 k'')"
proof -
  have zzz: "symbol_for (lit ''ZZZ'') = []"
    by (rule symbol_unknown) (simp_all add: lit_def object_prototype_functions_def)
  have ctor: "symbol_for (lit ''constructor'') = lit ''function Object() { [native code] }''"
    using symbol_inherited(1) [of "lit ''constructor''"]
    by (simp add: object_prototype_functions_def function_text_def) (simp add: lit_def)
  show ?thesis
    using symbol_table
    by (simp add: formatSalary_number rounded_amounts small_texts zzz ctor) (simp add: lit_def)
qed

text \<open>
  Claim C3. For every amount that is a number and every currency code that is a string,
  \<open>formatSalary\<close> gives \<open>N/A\<close> for zero; otherwise what the lookup of the code
  yields, followed by the amount divided by 10,000,000, by 100,000 or by 1,000 and rounded
  to the nearest integer (a half upwards), with the suffix \<open>cr\<close>, \<open>lakh\<close> or \<open>k\<close>,
  for the first of these thresholds that the amount reaches, and followed by the amount
  itself below 1,000. Every falsy amount gives \<open>N/A\<close>. The lookup yields the symbols of
  the table for INR, GBP, USD, EUR, JPY, AUD and CAD, and the empty symbol for every other
  code that names no member of \<open>Object.prototype\<close>. For a code that names such a
  member the lookup yields that member, whose text is prefixed in place of the empty
  symbol: \<open>formatSalary(5000, "constructor")\<close> is
  \<open>function Object() { [native code] }5 k\<close>, where the empty symbol would give
  \<open>5 k\<close>. The five examples of the specification come out as stated, and so does a
  fractional amount.
\<close>

theorem formatSalary_thresholds:
  "formatSalary rt (JNum n) (JStr code) =
     Inr (if n = 0 then lit ''N/A''
          else if n \<ge> 10000000 then
            symbol_for code @ number_text rt (Finite (of_int (Math_round (n / 10000000)))) @ lit '' cr''
          else if n \<ge> 100000 then
            symbol_for code @ number_text rt (Finite (of_int (Math_round (n / 100000)))) @ lit '' lakh''
          else if n \<ge> 1000 then
            symbol_for code @ number_text rt (Finite (of_int (Math_round (n / 1000)))) @ lit '' k''
          else symbol_for code @ number_text rt (Finite n))
   \<and> (\<not> truthy a \<longrightarrow> formatSalary rt a cur = Inr (lit ''N/A''))
   \<and> (\<bar>k\<bar> \<le> 9007199254740991 \<longrightarrow> number_text rt (Finite (of_int k)) = show_int k)
   \<and> of_int (Math_round x) \<le> x + 1 / 2 \<and> x + 1 / 2 < of_int (Math_round x) + 1
   \<and> symbol_for (lit ''INR'') = [8377] \<and> symbol_for (lit ''GBP'') = [163]
   \<and> symbol_for (lit ''USD'') = lit ''$'' \<and> symbol_for (lit ''EUR'') = [8364]
   \<and> symbol_for (lit ''JPY'') = [165] \<and> symbol_for (lit ''AUD'') = lit ''A$''
   \<and> symbol_for (lit ''CAD'') = lit ''C$''
   \<and> (code \<notin> {lit ''INR'', lit ''GBP'', lit ''USD'', lit ''EUR'', lit ''JPY'', lit ''AUD'', lit ''CAD''}
        \<and> code \<noteq> lit ''__proto__'' \<and> code \<notin> set object_prototype_functions
        \<longrightarrow> symbol_for code = [])
   \<and> (code \<in> set object_prototype_functions \<longrightarrow> symbol_for code = function_text code)
   \<and> symbol_for (lit ''__proto__'') = lit ''[object Object]''
   \<and> formatSalary rt (JNum 5000) (JStr (lit ''constructor''))
       = Inr (lit ''function Object() { [native code] }5 k'')
   \<and> formatSalary rt (JNum 12000000) (JStr (lit ''USD'')) = Inr (lit ''$1 cr'')
   \<and> formatSalary rt (JNum 250000) (JStr (lit ''INR'')) = Inr (8377 # lit ''3 lakh'')
   \<and> formatSalary rt (JNum 5000) (JStr (lit ''EUR'')) = Inr (8364 # lit ''5 k'')
   \<and> formatSalary rt (JNum 0) (JStr (lit ''USD'')) = Inr (lit ''N/A'')
   \<and> formatSalary rt (JNum 500) (JStr (lit ''ZZZ'')) = Inr (lit ''500'')
   \<and> formatSalary rt (JNum (2469 / 2)) (JStr (lit ''USD'')) = Inr (lit ''$1 k'')"
  using formatSalary_number [of rt n code] formatSalary_falsy [of a rt cur] number_text_int [of k rt]
    Math_round_nearest [of x] symbol_table symbol_unknown [of code] symbol_inherited(1) [of code] symbol_inherited(2)
    formatSalary_examples [of rt]
  by blast

theorem formatSalary_thresholds_witness:
  "\<not> truthy JUndefined
   \<and> formatSalary bare_runtime JUndefined JUndefined = Inr (lit ''N/A'')
   \<and> \<bar>3 :: int\<bar> \<le> 9007199254740991
   \<and> number_text bare_runtime (Finite (of_int 3)) = show_int 3
   \<and> lit ''ZZZ'' \<notin> {lit ''INR'', lit ''GBP'', lit ''USD'', lit ''EUR'', lit ''JPY'', lit ''AUD'', lit ''CAD''}
   \<and> lit ''ZZZ'' \<noteq> lit ''__proto__''
   \<and> lit ''ZZZ'' \<notin> set object_prototype_functions
   \<and> symbol_for (lit ''ZZZ'') = []
   \<and> lit ''toString'' \<in> set object_prototype_functions
   \<and> symbol_for (lit ''toString'') = lit ''function toString() { [native code] }''
   \<and> formatSalary bare_runtime (JNum 250000) (JStr (lit ''ZZZ'')) = Inr (lit ''3 lakh'')"
proof -
  note zzz = formatSalary_thresholds [where rt = bare_runtime and n = 250000 and code = "lit ''ZZZ''"
      and a = JUndefined and cur = JUndefined and k = 3 and x = 0]
  note inh = formatSalary_thresholds [where rt = bare_runtime and n = 0 and code = "lit ''toString''"
      and a = JUndefined and cur = JUndefined and k = 3 and x = 0]
  have unknown: "lit ''ZZZ'' \<notin> {lit ''INR'', lit ''GBP'', lit ''USD'', lit ''EUR'', lit ''JPY'', lit ''AUD'', lit ''CAD''}
      \<and> lit ''ZZZ'' \<noteq> lit ''__proto__'' \<and> lit ''ZZZ'' \<notin> set object_prototype_functions"
    by (simp add: lit_def object_prototype_functions_def)
  with zzz have symb: "symbol_for (lit ''ZZZ'') = []"
    by blast
  have member: "lit ''toString'' \<in> set object_prototype_functions"
    by (simp add: object_prototype_functions_def)
  with inh have "symbol_for (lit ''toString'') = function_text (lit ''toString'')"
    by blast
  then have fn: "symbol_for (lit ''toString'') = lit ''function toString() { [native code] }''"
    by (simp add: function_text_def) (simp add: lit_def)
  have small: "\<bar>3 :: int\<bar> \<le> 9007199254740991"
    by simp
  with zzz have three: "number_text bare_runtime (Finite (of_int 3)) = show_int 3"
    by blast
  have r: "show_int (Math_round (5 / 2)) = [51]" "show_int 3 = [51]"
    by code_simp+
  have symb': "symbol_for [90, 90, 90] = []"
    using symb by (simp add: lit_def)
  from zzz have "formatSalary bare_runtime (JNum 250000) (JStr (lit ''ZZZ''))
      = Inr (symbol_for (lit ''ZZZ'') @ number_text bare_runtime (Finite (of_int (Math_round (250000 / 100000))))
             @ lit '' lakh'')"
    by simp
  then have f: "formatSalary bare_runtime (JNum 250000) (JStr (lit ''ZZZ'')) = Inr (lit ''3 lakh'')"
    using three by (simp add: symb' rounded_amounts r lit_def)
  from zzz have n: "\<not> truthy JUndefined \<and> formatSalary bare_runtime JUndefined JUndefined = Inr (lit ''N/A'')"
    by simp
  from f n symb unknown member fn small three show ?thesis
    by blast
qed

section \<open>Facts about the lookup pipeline\<close>

lemma no_lone_surrogate:
  "list_all (\<lambda>u. u < 55296 \<or> 57343 < u) s \<Longrightarrow> \<not> lone_surrogate s"
  by (induction s rule: lone_surrogate.induct) auto

lemma formatName_units: "list_all (\<lambda>u. is_word u \<or> is_space u) (formatName name)"
  by (simp add: formatName_def list_all_iff Let_def)

lemma formatName_no_lone_surrogate [simp]: "\<not> lone_surrogate (formatName name)"
proof -
  have "list_all (\<lambda>u. u < 55296 \<or> 57343 < u) (formatName name)"
    using formatName_units [of name]
    by (auto simp: list_all_iff is_word_def is_space_def)
  then show ?thesis by (rule no_lone_surrogate)
qed

lemma fetchSalaries_ok:
  assumes "configured (graphUrl E)"
    and "upstream E (requests w) (EiSalaries companyId jobId jobTitle) = (d, Response True status (Some j))"
  shows "fetchSalaries E companyId jobId jobTitle w
     = (salary_results j, w\<lparr>clock := clock w + int d, requests := requests w @ [EiSalaries companyId jobId jobTitle]\<rparr>)"
  using assms by (simp add: fetchSalaries_def fetch_def json_of_def and_then_def)

text \<open>
  Claim C9. When the salary query is answered with a successful response whose body is
  JSON, \<open>fetchSalaries\<close> returns the empty list if the first element of the body is absent
  or its \<open>data\<close> field is absent, and throws a TypeError if \<open>data\<close> is present and
  \<open>data.aggregatedSalaryEstimates\<close> is absent: the read of \<open>.results\<close> is not guarded.
\<close>

theorem fetchSalaries_unguarded_results:
  assumes "configured (graphUrl E)"
    and "upstream E (requests w) (EiSalaries companyId jobId jobTitle) = (d, Response True status (Some j))"
    and "js_index j 0 = Inr a"
  shows "(nullish a \<longrightarrow> fst (fetchSalaries E companyId jobId jobTitle w) = Inr (JArr []))
       \<and> (\<not> nullish a \<and> js_prop a (lit ''data'') = Inr b \<and> nullish b \<longrightarrow>
            fst (fetchSalaries E companyId jobId jobTitle w) = Inr (JArr []))
       \<and> (\<not> nullish a \<and> js_prop a (lit ''data'') = Inr b \<and> \<not> nullish b
            \<and> js_prop b (lit ''aggregatedSalaryEstimates'') = Inr estimates \<and> nullish estimates \<longrightarrow>
            fst (fetchSalaries E companyId jobId jobTitle w) = Inl TypeError)"
proof -
  have run: "fst (fetchSalaries E companyId jobId jobTitle w) = salary_results j"
    using assms(1,2) by (simp add: fetchSalaries_ok)
  have none: "salary_results j = Inr (JArr [])" if "nullish a"
    using that assms(3) by (simp add: salary_results_def and_then_def or_else_def)
  have nodata: "salary_results j = Inr (JArr [])"
    if "\<not> nullish a" "js_prop a (lit ''data'') = Inr b" "nullish b"
    using that assms(3) by (simp add: salary_results_def and_then_def or_else_def)
  have throws: "salary_results j = Inl TypeError"
    if "\<not> nullish a" "js_prop a (lit ''data'') = Inr b" "\<not> nullish b"
      "js_prop b (lit ''aggregatedSalaryEstimates'') = Inr estimates" "nullish estimates"
  proof -
    from that(5) have "js_prop estimates (lit ''results'') = Inl TypeError"
      by (cases estimates) simp_all
    with that assms(3) show ?thesis
      by (simp add: salary_results_def and_then_def)
  qed
  from run none nodata throws show ?thesis
    by simp
qed

theorem fetchSalaries_unguarded_results_witness:
  "fst (fetchSalaries (canned_env bare_runtime (\<lambda>r. 0) (\<lambda>t. []) JNull JNull (JArr []))
          (JNum 1) (JNum 9) (JStr (lit ''Engineer'')) \<lparr>cache = [], clock = 0, requests = []\<rparr>)
     = Inr (JArr [])
   \<and> fst (fetchSalaries (canned_env bare_runtime (\<lambda>r. 0) (\<lambda>t. []) JNull JNull (JArr [JObj []]))
          (JNum 1) (JNum 9) (JStr (lit ''Engineer'')) \<lparr>cache = [], clock = 0, requests = []\<rparr>)
     = Inr (JArr [])
   \<and> fst (fetchSalaries (canned_env bare_runtime (\<lambda>r. 0) (\<lambda>t. []) JNull JNull (JArr [JObj [(lit ''data'', JObj [])]]))
          (JNum 1) (JNum 9) (JStr (lit ''Engineer'')) \<lparr>cache = [], clock = 0, requests = []\<rparr>)
     = Inl TypeError"
proof -
  let ?w = "\<lparr>cache = [], clock = 0, requests = []\<rparr>"
  have conf: "configured (graphUrl (canned_env bare_runtime (\<lambda>r. 0) (\<lambda>t. []) JNull JNull p))" for p
    by (simp add: canned_env_def configured_def lit_def)
  have up: "upstream (canned_env bare_runtime (\<lambda>r. 0) (\<lambda>t. []) JNull JNull p) (requests ?w)
              (EiSalaries (JNum 1) (JNum 9) (JStr (lit ''Engineer''))) = (0, Response True 200 (Some p))" for p
    by (simp add: canned_env_def canned_upstream_def)
  have first: "fst (fetchSalaries (canned_env bare_runtime (\<lambda>r. 0) (\<lambda>t. []) JNull JNull (JArr []))
          (JNum 1) (JNum 9) (JStr (lit ''Engineer'')) ?w) = Inr (JArr [])"
    using fetchSalaries_unguarded_results [OF conf up, where a = JUndefined]
    by simp
  have second: "fst (fetchSalaries (canned_env bare_runtime (\<lambda>r. 0) (\<lambda>t. []) JNull JNull (JArr [JObj []]))
          (JNum 1) (JNum 9) (JStr (lit ''Engineer'')) ?w) = Inr (JArr [])"
    using fetchSalaries_unguarded_results [OF conf up, where a = "JObj []" and b = JUndefined]
    by simp
  have third: "fst (fetchSalaries (canned_env bare_runtime (\<lambda>r. 0) (\<lambda>t. []) JNull JNull (JArr [JObj [(lit ''data'', JObj [])]]))
          (JNum 1) (JNum 9) (JStr (lit ''Engineer'')) ?w) = Inl TypeError"
    using fetchSalaries_unguarded_results [OF conf up, where a = "JObj [(lit ''data'', JObj [])]"
        and b = "JObj []" and estimates = JUndefined]
    by simp
  from first second third show ?thesis
    by simp
qed

lemma formatSalary_absent: "formatSalary rt JUndefined cur = Inr (lit ''N/A'')"
  by (simp add: formatSalary_def)

lemma salary_fields_empty:
  "salary_fields (JArr []) = Inr (JUndefined, JUndefined, JUndefined, JUndefined, JNum 0)"
  by (simp add: salary_fields_def and_then_def or_else_def opt_prop_def percentile_def)

lemma composeResult_empty:
  "composeResult E key cname crating jname (JArr []) w =
     (Inr (placeholder_result (toISOString E (clock w)) cname crating jname),
      w\<lparr>cache := setCacheValue key (placeholder_result (toISOString E (clock w)) cname crating jname)
          (Some 1296000) (clock w) (cache w)\<rparr>)"
  by (simp add: composeResult_def salary_fields_empty formatSalary_absent and_then_def lit_def
      placeholder_result_def)

lemma no_results_empty: "nullish cs \<or> cs = JArr [] \<Longrightarrow> no_results cs = Inr True"
  by (cases cs) (auto simp: no_results_def and_then_def lit_def)

lemma no_results_cons: "no_results (JArr (x # xs)) = Inr False"
  by (simp add: no_results_def and_then_def lit_def)


text \<open>
  Claim C5. On a miss of the combined cache entry: when the company lookup returns no
  list or an empty one, \<open>getSalaryInfo\<close> throws the error "No company found matching
  '...'"; when it returns a list with a first company and the job-title lookup returns no
  list or an empty one, the error "No job titles found matching '...'"; and when both
  return a first element and the salary lookup returns the empty list, nothing is thrown:
  the placeholder result (salary count 0, every formatted value \<open>N/A\<close>) is written to
  the cache under the combined key for 15 days and returned.
\<close>

theorem getSalaryInfo_empty_results:
  assumes "getCacheValue (generateCacheKey c j) (clock w) (cache w) = (r, c1)"
    and "cache_hit r = None"
  shows "(fetchGlassdoorCompanies E (formatName c) (w\<lparr>cache := c1\<rparr>) = (Inr cs, w2)
            \<and> (nullish cs \<or> cs = JArr []) \<longrightarrow>
          getSalaryInfo E c j w = (Inl (Error (lit ''No company found matching '' @ [39] @ c @ [39])), w2))
       \<and> (fetchGlassdoorCompanies E (formatName c) (w\<lparr>cache := c1\<rparr>) = (Inr (JArr (x # xs)), w2)
            \<and> first_company (JArr (x # xs)) = Inr (cid, cname, crating)
            \<and> fetchJobTitles E (formatName j) w2 = (Inr js, w3)
            \<and> (nullish js \<or> js = JArr []) \<longrightarrow>
          getSalaryInfo E c j w = (Inl (Error (lit ''No job titles found matching '' @ [39] @ j @ [39])), w3))
       \<and> (fetchGlassdoorCompanies E (formatName c) (w\<lparr>cache := c1\<rparr>) = (Inr (JArr (x # xs)), w2)
            \<and> first_company (JArr (x # xs)) = Inr (cid, cname, crating)
            \<and> fetchJobTitles E (formatName j) w2 = (Inr (JArr (y # ys)), w3)
            \<and> first_job (JArr (y # ys)) = Inr (jid, jname)
            \<and> fetchSalaries E cid jid jname w3 = (Inr (JArr []), w4) \<longrightarrow>
          getSalaryInfo E c j w =
            (Inr (placeholder_result (toISOString E (clock w4)) cname crating jname),
             w4\<lparr>cache := setCacheValue (generateCacheKey c j)
                   (placeholder_result (toISOString E (clock w4)) cname crating jname)
                   (Some 1296000) (clock w4) (cache w4)\<rparr>))"
proof -
  have company: "getSalaryInfo E c j w = (Inl (Error (lit ''No company found matching '' @ [39] @ c @ [39])), w2)"
    if "fetchGlassdoorCompanies E (formatName c) (w\<lparr>cache := c1\<rparr>) = (Inr cs, w2)" "nullish cs \<or> cs = JArr []"
    using assms that(1) no_results_empty [OF that(2)]
    by (simp add: getSalaryInfo_def Let_def and_then_def)
  have job: "getSalaryInfo E c j w = (Inl (Error (lit ''No job titles found matching '' @ [39] @ j @ [39])), w3)"
    if "fetchGlassdoorCompanies E (formatName c) (w\<lparr>cache := c1\<rparr>) = (Inr (JArr (x # xs)), w2)"
      "first_company (JArr (x # xs)) = Inr (cid, cname, crating)"
      "fetchJobTitles E (formatName j) w2 = (Inr js, w3)" "nullish js \<or> js = JArr []"
    using assms that(1,2,3) no_results_empty [OF that(4)]
    by (simp add: getSalaryInfo_def Let_def and_then_def no_results_cons)
  have salary: "getSalaryInfo E c j w =
            (Inr (placeholder_result (toISOString E (clock w4)) cname crating jname),
             w4\<lparr>cache := setCacheValue (generateCacheKey c j)
                   (placeholder_result (toISOString E (clock w4)) cname crating jname)
                   (Some 1296000) (clock w4) (cache w4)\<rparr>)"
    if "fetchGlassdoorCompanies E (formatName c) (w\<lparr>cache := c1\<rparr>) = (Inr (JArr (x # xs)), w2)"
      "first_company (JArr (x # xs)) = Inr (cid, cname, crating)"
      "fetchJobTitles E (formatName j) w2 = (Inr (JArr (y # ys)), w3)"
      "first_job (JArr (y # ys)) = Inr (jid, jname)"
      "fetchSalaries E cid jid jname w3 = (Inr (JArr []), w4)"
    using assms that
    by (simp add: getSalaryInfo_def Let_def and_then_def no_results_cons composeResult_empty)
  from company job salary show ?thesis
    by blast
qed

lemmas string_defs = lit_def trim_def toLowerCase_def lower_unit_def is_space_def is_word_def formatName_def
lemmas key_defs = generateCacheKey_def generateCompanyCacheKey_def generateJobCacheKey_def
lemmas step_defs = fetch_def json_of_def and_then_def or_else_def opt_prop_def non_empty_def js_gt0_def
  no_results_def cache_hit_def configured_def getCacheValue_def setCacheValue_def
  first_company_def first_job_def salary_results_def
lemmas fetch_defs = fetchGlassdoorCompanies_def fetchJobTitles_def fetchSalaries_def
lemmas stub_defs = canned_env_def canned_upstream_def employers_payload_def jobs_payload_def
  salaries_payload_def stub_companies_def stub_jobs_def stub_salaries_def stub_env_def

theorem getSalaryInfo_empty_results_witness:
  "getSalaryInfo (canned_env bare_runtime (\<lambda>r. 0) (\<lambda>t. []) (employers_payload (JArr [])) stub_jobs stub_salaries)
       (lit ''Acme'') (lit ''Engineer'') \<lparr>cache = [], clock = 0, requests = []\<rparr>
     = (Inl (Error (lit ''No company found matching '' @ [39] @ lit ''Acme'' @ [39])),
        \<lparr>cache = [], clock = 0, requests = [CompanySearch (lit ''Acme'')]\<rparr>)
   \<and> fst (getSalaryInfo (canned_env bare_runtime (\<lambda>r. 0) (\<lambda>t. []) stub_companies (jobs_payload (JArr [])) stub_salaries)
       (lit ''Acme'') (lit ''Engineer'') \<lparr>cache = [], clock = 0, requests = []\<rparr>)
     = Inl (Error (lit ''No job titles found matching '' @ [39] @ lit ''Engineer'' @ [39]))
   \<and> fst (getSalaryInfo (canned_env bare_runtime (\<lambda>r. 0) (\<lambda>t. []) stub_companies stub_jobs (salaries_payload (JArr [])))
       (lit ''Acme'') (lit ''Engineer'') \<lparr>cache = [], clock = 0, requests = []\<rparr>)
     = Inr (placeholder_result [] (JStr (lit ''Acme'')) (JNum (42 / 10)) (JStr (lit ''Engineer'')))
   \<and> map_of (cache (snd (getSalaryInfo (canned_env bare_runtime (\<lambda>r. 0) (\<lambda>t. []) stub_companies stub_jobs (salaries_payload (JArr [])))
       (lit ''Acme'') (lit ''Engineer'') \<lparr>cache = [], clock = 0, requests = []\<rparr>)))
       (generateCacheKey (lit ''Acme'') (lit ''Engineer''))
     = Some \<lparr>entry_value = placeholder_result [] (JStr (lit ''Acme'')) (JNum (42 / 10)) (JStr (lit ''Engineer'')),
             expiresAt = 1296000000\<rparr>"
proof -
  let ?w = "\<lparr>cache = [], clock = 0, requests = []\<rparr> :: world"
  let ?c = "lit ''Acme''" and ?j = "lit ''Engineer''"
  let ?E1 = "canned_env bare_runtime (\<lambda>r. 0) (\<lambda>t. []) (employers_payload (JArr [])) stub_jobs stub_salaries"
  let ?E2 = "canned_env bare_runtime (\<lambda>r. 0) (\<lambda>t. []) stub_companies (jobs_payload (JArr [])) stub_salaries"
  let ?E3 = "canned_env bare_runtime (\<lambda>r. 0) (\<lambda>t. []) stub_companies stub_jobs (salaries_payload (JArr []))"
  let ?first = "JObj [(lit ''id'', JNum 1), (lit ''name'', JStr (lit ''Acme'')), (lit ''overallRating'', JNum (42 / 10))]"
  let ?job = "JObj [(lit ''id'', JNum 9), (lit ''label'', JStr (lit ''Engineer''))]"
  have miss: "getCacheValue (generateCacheKey ?c ?j) (clock ?w) (cache ?w) = (None, [])"
    by (simp add: getCacheValue_def)
  have hit: "cache_hit None = None"
    by (simp add: cache_hit_def)
  have first: "getSalaryInfo ?E1 ?c ?j ?w
      = (Inl (Error (lit ''No company found matching '' @ [39] @ ?c @ [39])),
         \<lparr>cache = [], clock = 0, requests = [CompanySearch (lit ''Acme'')]\<rparr>)"
    using getSalaryInfo_empty_results [OF miss hit, where E = ?E1 and cs = "JArr []"
        and ?w2.0 = "\<lparr>cache = [], clock = 0, requests = [CompanySearch (lit ''Acme'')]\<rparr>"]
    by (simp add: fetch_defs step_defs key_defs stub_defs string_defs)
  let ?w2 = "snd (fetchGlassdoorCompanies ?E2 (formatName ?c) ?w)"
  have second: "fst (getSalaryInfo ?E2 ?c ?j ?w)
      = Inl (Error (lit ''No job titles found matching '' @ [39] @ ?j @ [39]))"
    using getSalaryInfo_empty_results [OF miss hit, where E = ?E2 and x = ?first and xs = "[]"
        and cid = "JNum 1" and cname = "JStr (lit ''Acme'')" and crating = "JNum (42 / 10)"
        and js = "JArr []" and ?w2.0 = ?w2
        and ?w3.0 = "snd (fetchJobTitles ?E2 (formatName ?j) ?w2)"]
    by (simp add: fetch_defs step_defs key_defs stub_defs string_defs)
  let ?v2 = "snd (fetchGlassdoorCompanies ?E3 (formatName ?c) ?w)"
  let ?v3 = "snd (fetchJobTitles ?E3 (formatName ?j) ?v2)"
  let ?v4 = "snd (fetchSalaries ?E3 (JNum 1) (JNum 9) (JStr (lit ''Engineer'')) ?v3)"
  have third: "fst (getSalaryInfo ?E3 ?c ?j ?w)
        = Inr (placeholder_result [] (JStr (lit ''Acme'')) (JNum (42 / 10)) (JStr (lit ''Engineer'')))
      \<and> map_of (cache (snd (getSalaryInfo ?E3 ?c ?j ?w))) (generateCacheKey ?c ?j)
        = Some \<lparr>entry_value = placeholder_result [] (JStr (lit ''Acme'')) (JNum (42 / 10)) (JStr (lit ''Engineer'')),
             expiresAt = 1296000000\<rparr>"
    using getSalaryInfo_empty_results [OF miss hit, where E = ?E3 and x = ?first and xs = "[]"
        and cid = "JNum 1" and cname = "JStr (lit ''Acme'')" and crating = "JNum (42 / 10)"
        and y = ?job and ys = "[]" and jid = "JNum 9" and jname = "JStr (lit ''Engineer'')"
        and ?w2.0 = ?v2 and ?w3.0 = ?v3 and ?w4.0 = ?v4]
    by (simp add: fetch_defs step_defs key_defs stub_defs string_defs)
  from first second third show ?thesis
    by blast
qed

lemma stub_amounts:
  "formatSalary rt (JNum 80000) (JStr [85, 83, 68]) = Inr [36, 56, 48, 32, 107]
   \<and> formatSalary rt (JNum 100000) (JStr [85, 83, 68]) = Inr [36, 49, 32, 108, 97, 107, 104]
   \<and> formatSalary rt (JNum 120000) (JStr [85, 83, 68]) = Inr [36, 49, 32, 108, 97, 107, 104]"
proof -
  have usd: "symbol_for [85, 83, 68] = [36]"
    using symbol_table by (simp add: lit_def)
  show ?thesis
    by (simp add: formatSalary_def and_then_def usd rounded_amounts small_texts lit_def)
qed

lemmas compose_defs = composeResult_def salary_fields_def percentile_def getSalaryInfo_def

lemma stub_first_call:
  assumes "cache w = []"
  shows "getSalaryInfo (stub_env rt lat fmt) c j w =
     (Inr (stub_result (fmt (clock w + int (lat (CompanySearch (formatName c)))
               + int (lat (JobTitleAutocomplete (formatName j)))
               + int (lat (EiSalaries (JNum 1) (JNum 9) (JStr (lit ''Engineer''))))))),
      \<lparr>cache =
         [(generateCompanyCacheKey (formatName c),
           \<lparr>entry_value = JArr [JObj [(lit ''id'', JNum 1), (lit ''name'', JStr (lit ''Acme'')),
                                      (lit ''overallRating'', JNum (42 / 10))]],
            expiresAt = clock w + int (lat (CompanySearch (formatName c))) + 2592000000\<rparr>),
          (generateJobCacheKey (formatName j),
           \<lparr>entry_value = JArr [JObj [(lit ''id'', JNum 9), (lit ''label'', JStr (lit ''Engineer''))]],
            expiresAt = clock w + int (lat (CompanySearch (formatName c)))
               + int (lat (JobTitleAutocomplete (formatName j))) + 2592000000\<rparr>),
          (generateCacheKey c j,
           \<lparr>entry_value = stub_result (fmt (clock w + int (lat (CompanySearch (formatName c)))
               + int (lat (JobTitleAutocomplete (formatName j)))
               + int (lat (EiSalaries (JNum 1) (JNum 9) (JStr (lit ''Engineer'')))))),
            expiresAt = clock w + int (lat (CompanySearch (formatName c)))
               + int (lat (JobTitleAutocomplete (formatName j)))
               + int (lat (EiSalaries (JNum 1) (JNum 9) (JStr (lit ''Engineer'')))) + 1296000000\<rparr>)],
       clock = clock w + int (lat (CompanySearch (formatName c)))
               + int (lat (JobTitleAutocomplete (formatName j)))
               + int (lat (EiSalaries (JNum 1) (JNum 9) (JStr (lit ''Engineer'')))),
       requests = requests w @ [CompanySearch (formatName c), JobTitleAutocomplete (formatName j),
                    EiSalaries (JNum 1) (JNum 9) (JStr (lit ''Engineer''))]\<rparr>)"
  using assms
  by (cases w)
     (simp add: compose_defs fetch_defs step_defs key_defs stub_defs stub_result_def stub_amounts
        Let_def lit_def)

lemma stub_second_call:
  assumes "cache w' = [(generateCompanyCacheKey n, e1), (generateJobCacheKey m, e2),
                       (generateCacheKey c j, \<lparr>entry_value = stub_result ts, expiresAt = x\<rparr>)]"
    and "t \<le> x"
  shows "getSalaryInfo E c j (w'\<lparr>clock := t\<rparr>) = (Inr (stub_result ts), w'\<lparr>clock := t\<rparr>)"
  using assms
  by (cases w')
     (simp add: getSalaryInfo_def getCacheValue_def cache_hit_def key_defs stub_result_def lit_def)

lemma stub_median: "result_median (Inr (stub_result ts)) = Inr (JStr (lit ''$1 lakh''))"
  by (simp add: result_median_def stub_result_def and_then_def lit_def)

text \<open>
  Claim C1, as amended. With the stubbed upstream (one employer \<open>{id: 1, name: "Acme",
  overallRating: 4.2}\<close>, one job title \<open>{id: 9, label: "Engineer"}\<close>, one salary record in
  USD with the percentiles 80000, 100000 and 120000) and an empty cache, \<open>getSalaryInfo\<close>
  sends the three requests and returns a result whose \<open>salary.median\<close> is \<open>"$1 lakh"\<close>:
  100000 reaches the lakh threshold. A second call with the same arguments at any time up
  to the expiry of the combined entry, 15 days after it was written, returns the same
  result and changes nothing but the clock: no further request is sent.
\<close>

theorem end_to_end_stub:
  assumes "cache w = []"
  shows "\<exists>w'. getSalaryInfo (stub_env rt lat fmt) c j w = (Inr (stub_result (fmt (clock w'))), w')
      \<and> result_median (Inr (stub_result (fmt (clock w')))) = Inr (JStr (lit ''$1 lakh''))
      \<and> requests w' = requests w @ [CompanySearch (formatName c), JobTitleAutocomplete (formatName j),
                                      EiSalaries (JNum 1) (JNum 9) (JStr (lit ''Engineer''))]
      \<and> (\<forall>t. t \<le> clock w' + 15 * 24 * 60 * 60 * 1000 \<longrightarrow>
            getSalaryInfo (stub_env rt lat fmt) c j (w'\<lparr>clock := t\<rparr>)
              = (Inr (stub_result (fmt (clock w'))), w'\<lparr>clock := t\<rparr>))"
proof -
  let ?w' = "snd (getSalaryInfo (stub_env rt lat fmt) c j w)"
  note run = stub_first_call [OF assms, of rt lat fmt c j]
  have first: "getSalaryInfo (stub_env rt lat fmt) c j w = (Inr (stub_result (fmt (clock ?w'))), ?w')"
    by (simp add: run)
  have cache': "cache ?w' =
      [(generateCompanyCacheKey (formatName c),
        \<lparr>entry_value = JArr [JObj [(lit ''id'', JNum 1), (lit ''name'', JStr (lit ''Acme'')),
                                   (lit ''overallRating'', JNum (42 / 10))]],
         expiresAt = clock w + int (lat (CompanySearch (formatName c))) + 2592000000\<rparr>),
       (generateJobCacheKey (formatName j),
        \<lparr>entry_value = JArr [JObj [(lit ''id'', JNum 9), (lit ''label'', JStr (lit ''Engineer''))]],
         expiresAt = clock w + int (lat (CompanySearch (formatName c)))
            + int (lat (JobTitleAutocomplete (formatName j))) + 2592000000\<rparr>),
       (generateCacheKey c j,
        \<lparr>entry_value = stub_result (fmt (clock ?w')), expiresAt = clock ?w' + 1296000000\<rparr>)]"
    by (simp add: run)
  have sent: "requests ?w' = requests w @ [CompanySearch (formatName c), JobTitleAutocomplete (formatName j),
                                      EiSalaries (JNum 1) (JNum 9) (JStr (lit ''Engineer''))]"
    by (simp add: run)
  have again: "getSalaryInfo (stub_env rt lat fmt) c j (?w'\<lparr>clock := t\<rparr>)
              = (Inr (stub_result (fmt (clock ?w'))), ?w'\<lparr>clock := t\<rparr>)"
    if "t \<le> clock ?w' + 15 * 24 * 60 * 60 * 1000" for t
    using that by (intro stub_second_call [OF cache']) simp
  from first sent again stub_median show ?thesis
    by blast
qed

text \<open>
  In the end-to-end example the median is not \<open>"$100 k"\<close>.
\<close>

theorem end_to_end_stub_median_counterexample:
  "result_median (fst (getSalaryInfo (stub_env bare_runtime no_delay no_timestamp) (lit ''Acme'') (lit ''Engineer'') fresh_world))
     = Inr (JStr (lit ''$1 lakh''))
   \<and> lit ''$1 lakh'' \<noteq> lit ''$100 k''"
proof -
  have "cache fresh_world = []"
    by (simp add: fresh_world_def)
  then have "fst (getSalaryInfo (stub_env bare_runtime no_delay no_timestamp) (lit ''Acme'') (lit ''Engineer'') fresh_world)
      = Inr (stub_result [])"
    by (simp add: stub_first_call no_timestamp_def)
  then show ?thesis
    by (simp add: stub_median) (simp add: lit_def)
qed

theorem end_to_end_stub_witness:
  "cache fresh_world = []
   \<and> fst (getSalaryInfo (stub_env bare_runtime no_delay no_timestamp) (lit ''Acme'') (lit ''Engineer'') fresh_world)
       = Inr (stub_result [])
   \<and> result_median (Inr (stub_result [])) = Inr (JStr (lit ''$1 lakh''))
   \<and> requests (snd (getSalaryInfo (stub_env bare_runtime no_delay no_timestamp) (lit ''Acme'') (lit ''Engineer'') fresh_world))
       = [CompanySearch (lit ''Acme''), JobTitleAutocomplete (lit ''Engineer''),
          EiSalaries (JNum 1) (JNum 9) (JStr (lit ''Engineer''))]
   \<and> getSalaryInfo (stub_env bare_runtime no_delay no_timestamp) (lit ''Acme'') (lit ''Engineer'')
        ((snd (getSalaryInfo (stub_env bare_runtime no_delay no_timestamp) (lit ''Acme'') (lit ''Engineer'') fresh_world))
           \<lparr>clock := 1296000000\<rparr>)
       = (Inr (stub_result []),
          (snd (getSalaryInfo (stub_env bare_runtime no_delay no_timestamp) (lit ''Acme'') (lit ''Engineer'') fresh_world))
           \<lparr>clock := 1296000000\<rparr>)"
proof -
  let ?E = "stub_env bare_runtime no_delay no_timestamp"
  let ?c = "lit ''Acme''" and ?j = "lit ''Engineer''"
  have fresh: "cache fresh_world = []"
    by (simp add: fresh_world_def)
  have names: "formatName ?c = ?c \<and> formatName ?j = ?j"
    by (simp add: string_defs)
  from end_to_end_stub [OF fresh, of bare_runtime no_delay no_timestamp ?c ?j]
  obtain w' where first: "getSalaryInfo ?E ?c ?j fresh_world = (Inr (stub_result (no_timestamp (clock w'))), w')"
    and median: "result_median (Inr (stub_result (no_timestamp (clock w')))) = Inr (JStr (lit ''$1 lakh''))"
    and sent: "requests w' = requests fresh_world @ [CompanySearch (formatName ?c), JobTitleAutocomplete (formatName ?j),
                                      EiSalaries (JNum 1) (JNum 9) (JStr (lit ''Engineer''))]"
    and again: "\<And>t. t \<le> clock w' + 15 * 24 * 60 * 60 * 1000 \<Longrightarrow>
            getSalaryInfo ?E ?c ?j (w'\<lparr>clock := t\<rparr>) = (Inr (stub_result (no_timestamp (clock w'))), w'\<lparr>clock := t\<rparr>)"
    by blast
  have w': "snd (getSalaryInfo ?E ?c ?j fresh_world) = w'"
    by (simp add: first)
  have now: "clock w' = 0"
    using stub_first_call [OF fresh, of bare_runtime no_delay no_timestamp ?c ?j] first
    by (auto simp: no_delay_def fresh_world_def)
  have second: "getSalaryInfo ?E ?c ?j (w'\<lparr>clock := 1296000000\<rparr>) = (Inr (stub_result []), w'\<lparr>clock := 1296000000\<rparr>)"
    using again [of 1296000000] by (simp add: now no_timestamp_def)
  from fresh first median sent second show ?thesis
    unfolding w' by (simp add: names no_timestamp_def fresh_world_def)
qed

lemma getSalaryInfo_hit:
  assumes "getCacheValue (generateCacheKey c j) (clock w) (cache w) = (Some v, c1)" and "truthy v"
  shows "getSalaryInfo E c j w = (Inr v, w)"
proof -
  from assms(1) have "c1 = cache w"
    by (auto simp: getCacheValue_def split: option.splits if_splits)
  with assms show ?thesis
    by (simp add: getSalaryInfo_def cache_hit_def Let_def)
qed

lemma composeResult_result:
  assumes "salary_fields ss = Inr (cur, lo, med, hi, cnt)"
    and "formatSalary (host E) lo cur = Inr lowText"
    and "formatSalary (host E) med cur = Inr medText"
    and "formatSalary (host E) hi cur = Inr highText"
  shows "composeResult E key cname crating jname ss w =
     (Inr (salary_result (toISOString E (clock w)) cname crating jname cnt cur lowText medText highText),
      w\<lparr>cache := setCacheValue key
          (salary_result (toISOString E (clock w)) cname crating jname cnt cur lowText medText highText)
          (Some 1296000) (clock w) (cache w)\<rparr>)"
  using assms by (simp add: composeResult_def and_then_def salary_result_def)

lemma composeResult_fields_error:
  "salary_fields ss = Inl e \<Longrightarrow> composeResult E key cname crating jname ss w = (Inl e, w)"
  by (simp add: composeResult_def and_then_def)

lemma getSalaryInfo_miss:
  assumes "getCacheValue (generateCacheKey c j) (clock w) (cache w) = (r, c1)" "cache_hit r = None"
    and "fetchGlassdoorCompanies E (formatName c) (w\<lparr>cache := c1\<rparr>) = (Inr cs, w2)"
    and "no_results cs = Inr False" "first_company cs = Inr (cid, cname, crating)"
    and "fetchJobTitles E (formatName j) w2 = (Inr js, w3)"
    and "no_results js = Inr False" "first_job js = Inr (jid, jname)"
    and "fetchSalaries E cid jid jname w3 = (Inr ss, w4)"
  shows "getSalaryInfo E c j w = composeResult E (generateCacheKey c j) cname crating jname ss w4"
  using assms by (simp add: getSalaryInfo_def Let_def and_then_def)

lemma stored_under_generated_key:
  "map_of (setCacheValue (generateCacheKey c j) R (Some s) now cs) (generateCacheKey c j)
     = Some \<lparr>entry_value = R, expiresAt = now + s * 1000\<rparr>"
  using colon_key(1) [OF generated_keys_colon(1), of c j]
  by (simp add: setCacheValue_def map_of_update_same)

lemma company_lookup_requests:
  "fetchGlassdoorCompanies E n w = (r, w') \<Longrightarrow>
     requests w' = requests w \<or> requests w' = requests w @ [CompanySearch n]"
  by (auto simp: fetchGlassdoorCompanies_def fetch_def Let_def
      split: prod.splits option.splits if_splits sum.splits)

lemma job_lookup_requests:
  "fetchJobTitles E n w = (r, w') \<Longrightarrow>
     requests w' = requests w \<or> requests w' = requests w @ [JobTitleAutocomplete n]"
  by (auto simp: fetchJobTitles_def fetch_def Let_def
      split: prod.splits option.splits if_splits sum.splits)

lemma google_names:
  "formatName (lit ''Google, Inc.'') = lit ''Google'' \<and> formatName (lit ''Google'') = lit ''Google''
   \<and> formatName (lit ''Engineer'') = lit ''Engineer''"
  by (simp add: string_defs)

lemma google_keys: "generateCacheKey (lit ''Google, Inc.'') x \<noteq> generateCacheKey (lit ''Google'') x"
  by (simp add: key_defs string_defs)

text \<open>
  Claim C4, as amended. \<open>getSalaryInfo\<close> computes the combined key from the raw inputs,
  which \<open>generateCacheKey\<close> trims and lowercases, before it sanitizes anything. A live,
  truthy entry under that key is returned as it is. On a miss the names sanitized by
  \<open>formatName\<close> go to the company and the job-title lookup, whose requests carry them;
  when both lookups give a first element and the salary lookup returns, the result is
  composed, returned and written under the key of the raw inputs for 15 days, and an error
  in reading the salary record is thrown with nothing written. The amounts of the result
  are formatted whenever they are numbers and the currency code is a string.
  \<open>"Google, Inc."\<close> and \<open>"Google"\<close> sanitize to the same name and share the entry of
  the company lookup, but their combined keys differ.
\<close>

theorem getSalaryInfo_key_of_raw_inputs:
  "(getCacheValue (generateCacheKey c j) (clock w) (cache w) = (Some v, c1) \<and> truthy v \<longrightarrow>
      getSalaryInfo E c j w = (Inr v, w))
   \<and> (getCacheValue (generateCacheKey c j) (clock w) (cache w) = (r, c1) \<and> cache_hit r = None
        \<and> fetchGlassdoorCompanies E (formatName c) (w\<lparr>cache := c1\<rparr>) = (Inr cs, w2)
        \<and> no_results cs = Inr False \<and> first_company cs = Inr (cid, cname, crating)
        \<and> fetchJobTitles E (formatName j) w2 = (Inr js, w3)
        \<and> no_results js = Inr False \<and> first_job js = Inr (jid, jname)
        \<and> fetchSalaries E cid jid jname w3 = (Inr ss, w4) \<longrightarrow>
      (salary_fields ss = Inr (cur, lo, med, hi, cnt)
         \<and> formatSalary (host E) lo cur = Inr lowText
         \<and> formatSalary (host E) med cur = Inr medText
         \<and> formatSalary (host E) hi cur = Inr highText \<longrightarrow>
       getSalaryInfo E c j w =
         (Inr (salary_result (toISOString E (clock w4)) cname crating jname cnt cur lowText medText highText),
          w4\<lparr>cache := setCacheValue (generateCacheKey c j)
                (salary_result (toISOString E (clock w4)) cname crating jname cnt cur lowText medText highText)
                (Some (15 * 24 * 60 * 60)) (clock w4) (cache w4)\<rparr>)
       \<and> map_of (cache (snd (getSalaryInfo E c j w))) (generateCacheKey c j)
           = Some \<lparr>entry_value =
                      salary_result (toISOString E (clock w4)) cname crating jname cnt cur lowText medText highText,
                   expiresAt = clock w4 + 15 * 24 * 60 * 60 * 1000\<rparr>)
      \<and> (salary_fields ss = Inl e \<longrightarrow> getSalaryInfo E c j w = (Inl e, w4)))
   \<and> (\<exists>shown. formatSalary (host E) (JNum n) (JStr code) = Inr shown)
   \<and> (fetchGlassdoorCompanies E (formatName c) w1 = (r1, w1') \<longrightarrow>
        requests w1' = requests w1 \<or> requests w1' = requests w1 @ [CompanySearch (formatName c)])
   \<and> (fetchJobTitles E (formatName j) w1 = (r2, w2') \<longrightarrow>
        requests w2' = requests w1 \<or> requests w2' = requests w1 @ [JobTitleAutocomplete (formatName j)])
   \<and> formatName (lit ''Google, Inc.'') = formatName (lit ''Google'')
   \<and> generateCompanyCacheKey (formatName (lit ''Google, Inc.'')) = generateCompanyCacheKey (formatName (lit ''Google''))
   \<and> generateCacheKey (lit ''Google, Inc.'') j \<noteq> generateCacheKey (lit ''Google'') j"
proof -
  let ?R = "salary_result (toISOString E (clock w4)) cname crating jname cnt cur lowText medText highText"
  have miss: "getSalaryInfo E c j w = composeResult E (generateCacheKey c j) cname crating jname ss w4"
    if "getCacheValue (generateCacheKey c j) (clock w) (cache w) = (r, c1)" "cache_hit r = None"
      "fetchGlassdoorCompanies E (formatName c) (w\<lparr>cache := c1\<rparr>) = (Inr cs, w2)"
      "no_results cs = Inr False" "first_company cs = Inr (cid, cname, crating)"
      "fetchJobTitles E (formatName j) w2 = (Inr js, w3)"
      "no_results js = Inr False" "first_job js = Inr (jid, jname)"
      "fetchSalaries E cid jid jname w3 = (Inr ss, w4)"
    using that by (rule getSalaryInfo_miss)
  have written: "composeResult E (generateCacheKey c j) cname crating jname ss w4 =
         (Inr ?R, w4\<lparr>cache := setCacheValue (generateCacheKey c j) ?R (Some (15 * 24 * 60 * 60)) (clock w4) (cache w4)\<rparr>)
       \<and> map_of (cache (snd (composeResult E (generateCacheKey c j) cname crating jname ss w4))) (generateCacheKey c j)
           = Some \<lparr>entry_value = ?R, expiresAt = clock w4 + 15 * 24 * 60 * 60 * 1000\<rparr>"
    if "salary_fields ss = Inr (cur, lo, med, hi, cnt)"
      "formatSalary (host E) lo cur = Inr lowText" "formatSalary (host E) med cur = Inr medText"
      "formatSalary (host E) hi cur = Inr highText"
    using composeResult_result [OF that, of "generateCacheKey c j" cname crating jname w4]
    by (simp add: stored_under_generated_key)
  have failed: "composeResult E (generateCacheKey c j) cname crating jname ss w4 = (Inl e, w4)"
    if "salary_fields ss = Inl e"
    using that by (rule composeResult_fields_error)
  have formatted: "\<exists>shown. formatSalary (host E) (JNum n) (JStr code) = Inr shown"
    by (simp add: formatSalary_number)
  from miss written failed formatted getSalaryInfo_hit [of c j w v c1 E] google_names google_keys [of j]
    company_lookup_requests [of E "formatName c" w1 r1 w1'] job_lookup_requests [of E "formatName j" w1 r2 w2']
  show ?thesis
    by (simp only: simp_thms) metis
qed

lemma google_first_call:
  "getSalaryInfo (stub_env bare_runtime no_delay no_timestamp) (lit ''Google, Inc.'') (lit ''Engineer'') fresh_world =
     (Inr (stub_result []),
      \<lparr>cache =
         [(lit ''company:google'',
           \<lparr>entry_value = JArr [JObj [(lit ''id'', JNum 1), (lit ''name'', JStr (lit ''Acme'')),
                                      (lit ''overallRating'', JNum (42 / 10))]],
            expiresAt = 2592000000\<rparr>),
          (lit ''job:engineer'',
           \<lparr>entry_value = JArr [JObj [(lit ''id'', JNum 9), (lit ''label'', JStr (lit ''Engineer''))]],
            expiresAt = 2592000000\<rparr>),
          (lit ''salary:google, inc.:engineer'',
           \<lparr>entry_value = stub_result [], expiresAt = 1296000000\<rparr>)],
       clock = 0,
       requests = [CompanySearch (lit ''Google''), JobTitleAutocomplete (lit ''Engineer''),
                   EiSalaries (JNum 1) (JNum 9) (JStr (lit ''Engineer''))]\<rparr>)"
proof -
  have fresh: "cache fresh_world = []"
    by (simp add: fresh_world_def)
  show ?thesis
    unfolding stub_first_call [OF fresh]
    by (simp add: no_delay_def no_timestamp_def fresh_world_def google_names)
       (simp add: key_defs string_defs)
qed

text \<open>
  After a call for \<open>"Google, Inc."\<close> the combined entry is stored under the key of the raw
  name, not under the key of the sanitized one; a call for \<open>"Google"\<close> misses it and
  queries the salaries again.
\<close>

theorem combined_key_of_sanitized_inputs_counterexample:
  "formatName (lit ''Google, Inc.'') = formatName (lit ''Google'')
   \<and> map fst (cache (snd (getSalaryInfo (stub_env bare_runtime no_delay no_timestamp)
                              (lit ''Google, Inc.'') (lit ''Engineer'') fresh_world)))
       = [lit ''company:google'', lit ''job:engineer'', lit ''salary:google, inc.:engineer'']
   \<and> generateCacheKey (formatName (lit ''Google, Inc.'')) (formatName (lit ''Engineer''))
       = lit ''salary:google:engineer''
   \<and> requests (snd (getSalaryInfo (stub_env bare_runtime no_delay no_timestamp) (lit ''Google'') (lit ''Engineer'')
                       (snd (getSalaryInfo (stub_env bare_runtime no_delay no_timestamp)
                              (lit ''Google, Inc.'') (lit ''Engineer'') fresh_world))))
       = [CompanySearch (lit ''Google''), JobTitleAutocomplete (lit ''Engineer''),
          EiSalaries (JNum 1) (JNum 9) (JStr (lit ''Engineer'')),
          EiSalaries (JNum 1) (JNum 9) (JStr (lit ''Engineer''))]"
proof -
  have key: "generateCacheKey (formatName (lit ''Google, Inc.'')) (formatName (lit ''Engineer''))
       = lit ''salary:google:engineer''"
    by (simp add: key_defs string_defs)
  have second: "requests (snd (getSalaryInfo (stub_env bare_runtime no_delay no_timestamp) (lit ''Google'') (lit ''Engineer'')
                       (snd (getSalaryInfo (stub_env bare_runtime no_delay no_timestamp)
                              (lit ''Google, Inc.'') (lit ''Engineer'') fresh_world))))
       = [CompanySearch (lit ''Google''), JobTitleAutocomplete (lit ''Engineer''),
          EiSalaries (JNum 1) (JNum 9) (JStr (lit ''Engineer'')),
          EiSalaries (JNum 1) (JNum 9) (JStr (lit ''Engineer''))]"
    unfolding google_first_call
    by (simp add: compose_defs fetch_defs step_defs key_defs stub_defs stub_result_def stub_amounts
        no_delay_def no_timestamp_def Let_def string_defs)
  from key second google_names show ?thesis
    by (simp add: google_first_call)
qed

theorem getSalaryInfo_key_of_raw_inputs_witness:
  "getSalaryInfo (stub_env bare_runtime no_delay no_timestamp) (lit ''Google, Inc.'') (lit ''Engineer'')
       (snd (getSalaryInfo (stub_env bare_runtime no_delay no_timestamp) (lit ''Google, Inc.'') (lit ''Engineer'')
               fresh_world))
     = (Inr (stub_result []),
        snd (getSalaryInfo (stub_env bare_runtime no_delay no_timestamp) (lit ''Google, Inc.'') (lit ''Engineer'')
               fresh_world))
   \<and> fst (getSalaryInfo (stub_env bare_runtime no_delay no_timestamp) (lit ''Google, Inc.'') (lit ''Engineer'')
            fresh_world)
       = Inr (salary_result [] (JStr (lit ''Acme'')) (JNum (42 / 10)) (JStr (lit ''Engineer'')) (JNum 0)
                (JStr (lit ''USD'')) (lit ''$80 k'') (lit ''$1 lakh'') (lit ''$1 lakh''))
   \<and> map_of (cache (snd (getSalaryInfo (stub_env bare_runtime no_delay no_timestamp)
                            (lit ''Google, Inc.'') (lit ''Engineer'') fresh_world)))
        (generateCacheKey (lit ''Google, Inc.'') (lit ''Engineer''))
     = Some \<lparr>entry_value = stub_result [], expiresAt = 1296000000\<rparr>
   \<and> generateCacheKey (lit ''Google, Inc.'') (lit ''Engineer'') = lit ''salary:google, inc.:engineer''
   \<and> requests (snd (fetchGlassdoorCompanies (stub_env bare_runtime no_delay no_timestamp)
                       (formatName (lit ''Google, Inc.'')) fresh_world))
       = [CompanySearch (lit ''Google'')]"
proof -
  let ?E = "stub_env bare_runtime no_delay no_timestamp"
  let ?c = "lit ''Google, Inc.''" and ?j = "lit ''Engineer''"
  let ?w1 = "snd (getSalaryInfo ?E ?c ?j fresh_world)"
  let ?first = "JObj [(lit ''id'', JNum 1), (lit ''name'', JStr (lit ''Acme'')), (lit ''overallRating'', JNum (42 / 10))]"
  let ?job = "JObj [(lit ''id'', JNum 9), (lit ''label'', JStr (lit ''Engineer''))]"
  let ?ss = "JArr [JObj [(lit ''currency'', JObj [(lit ''code'', JStr (lit ''USD''))]),
                    (lit ''totalPayStatistics'', JObj [(lit ''percentiles'',
                       JArr [JObj [(lit ''ident'', JStr (lit ''P25'')), (lit ''value'', JNum 80000)],
                             JObj [(lit ''ident'', JStr (lit ''P50'')), (lit ''value'', JNum 100000)],
                             JObj [(lit ''ident'', JStr (lit ''P75'')), (lit ''value'', JNum 120000)]])])]]"
  let ?v2 = "snd (fetchGlassdoorCompanies ?E (formatName ?c) fresh_world)"
  let ?v3 = "snd (fetchJobTitles ?E (formatName ?j) ?v2)"
  let ?v4 = "snd (fetchSalaries ?E (JNum 1) (JNum 9) (JStr (lit ''Engineer'')) ?v3)"
  let ?R = "salary_result [] (JStr (lit ''Acme'')) (JNum (42 / 10)) (JStr (lit ''Engineer'')) (JNum 0)
                 (JStr (lit ''USD'')) (lit ''$80 k'') (lit ''$1 lakh'') (lit ''$1 lakh'')"
  have key: "generateCacheKey ?c ?j = lit ''salary:google, inc.:engineer''"
    by (simp add: key_defs string_defs)
  have same_result: "?R = stub_result []"
    by (simp add: salary_result_def stub_result_def lit_def)
  have look: "getCacheValue (generateCacheKey ?c ?j) (clock ?w1) (cache ?w1) = (Some (stub_result []), cache ?w1)"
    unfolding google_first_call key by (simp add: getCacheValue_def lit_def)
  have hit: "getSalaryInfo ?E ?c ?j ?w1 = (Inr (stub_result []), ?w1)"
    using getSalaryInfo_key_of_raw_inputs [where c = ?c and j = ?j and w = ?w1 and v = "stub_result []"
        and ?c1.0 = "cache ?w1" and E = ?E] look
    by (simp add: stub_result_def)
  have miss: "getCacheValue (generateCacheKey ?c ?j) (clock fresh_world) (cache fresh_world) = (None, [])"
    by (simp add: getCacheValue_def fresh_world_def)
  have same: "fresh_world\<lparr>cache := []\<rparr> = fresh_world"
    by (simp add: fresh_world_def)
  have companies: "fetchGlassdoorCompanies ?E (formatName ?c) fresh_world = (Inr (JArr [?first]), ?v2)"
    by (simp add: fetch_defs step_defs key_defs stub_defs string_defs fresh_world_def no_delay_def)
  have jobs: "fetchJobTitles ?E (formatName ?j) ?v2 = (Inr (JArr [?job]), ?v3)"
    by (simp add: fetch_defs step_defs key_defs stub_defs string_defs fresh_world_def no_delay_def)
  have salaries: "fetchSalaries ?E (JNum 1) (JNum 9) (JStr (lit ''Engineer'')) ?v3 = (Inr ?ss, ?v4)"
    by (simp add: fetch_defs step_defs key_defs stub_defs string_defs fresh_world_def no_delay_def)
  have firsts: "no_results (JArr [?first]) = Inr False
      \<and> first_company (JArr [?first]) = Inr (JNum 1, JStr (lit ''Acme''), JNum (42 / 10))
      \<and> no_results (JArr [?job]) = Inr False
      \<and> first_job (JArr [?job]) = Inr (JNum 9, JStr (lit ''Engineer''))"
    by (simp add: step_defs lit_def)
  have fields: "salary_fields ?ss = Inr (JStr (lit ''USD''), JNum 80000, JNum 100000, JNum 120000, JNum 0)"
    by (simp add: salary_fields_def percentile_def step_defs lit_def)
  have amounts: "formatSalary (host ?E) (JNum 80000) (JStr (lit ''USD'')) = Inr (lit ''$80 k'')
      \<and> formatSalary (host ?E) (JNum 100000) (JStr (lit ''USD'')) = Inr (lit ''$1 lakh'')
      \<and> formatSalary (host ?E) (JNum 120000) (JStr (lit ''USD'')) = Inr (lit ''$1 lakh'')"
    using stub_amounts [of "host ?E"] by (simp add: lit_def)
  have stamp: "toISOString ?E t = []" for t
    by (simp add: stub_defs no_timestamp_def)
  have now: "clock ?v4 = 0"
    by (simp add: fetch_defs step_defs key_defs stub_defs string_defs fresh_world_def no_delay_def)
  note inst = getSalaryInfo_key_of_raw_inputs [where c = ?c and j = ?j and w = fresh_world and r = None
        and ?c1.0 = "[]" and E = ?E and cs = "JArr [?first]" and ?w2.0 = ?v2
        and cid = "JNum 1" and cname = "JStr (lit ''Acme'')" and crating = "JNum (42 / 10)"
        and js = "JArr [?job]" and ?w3.0 = ?v3 and jid = "JNum 9" and jname = "JStr (lit ''Engineer'')"
        and ss = ?ss and ?w4.0 = ?v4 and cur = "JStr (lit ''USD'')" and lo = "JNum 80000"
        and med = "JNum 100000" and hi = "JNum 120000" and cnt = "JNum 0"
        and lowText = "lit ''$80 k''" and medText = "lit ''$1 lakh''" and highText = "lit ''$1 lakh''"
        and ?w1.0 = fresh_world and ?r1.0 = "Inr (JArr [?first])" and ?w1'.0 = ?v2 and e = TypeError]
  note missed = inst [THEN conjunct2, THEN conjunct1]
  have hyps: "getCacheValue (generateCacheKey ?c ?j) (clock fresh_world) (cache fresh_world) = (None, [])
      \<and> cache_hit None = None
      \<and> fetchGlassdoorCompanies ?E (formatName ?c) (fresh_world\<lparr>cache := []\<rparr>) = (Inr (JArr [?first]), ?v2)"
    using miss companies by (simp add: same cache_hit_def)
  let ?Rt = "salary_result (toISOString ?E (clock ?v4)) (JStr (lit ''Acme'')) (JNum (42 / 10))
                 (JStr (lit ''Engineer'')) (JNum 0) (JStr (lit ''USD'')) (lit ''$80 k'') (lit ''$1 lakh'')
                 (lit ''$1 lakh'')"
  from missed hyps firsts jobs salaries fields amounts
  have run: "getSalaryInfo ?E ?c ?j fresh_world
         = (Inr ?Rt,
            ?v4\<lparr>cache := setCacheValue (generateCacheKey ?c ?j) ?Rt (Some (15 * 24 * 60 * 60)) (clock ?v4)
                              (cache ?v4)\<rparr>)
       \<and> map_of (cache ?w1) (generateCacheKey ?c ?j)
           = Some \<lparr>entry_value = ?Rt, expiresAt = clock ?v4 + 15 * 24 * 60 * 60 * 1000\<rparr>"
    by blast
  have same_t: "?Rt = ?R"
    by (simp add: stamp)
  have first: "fst (getSalaryInfo ?E ?c ?j fresh_world) = Inr ?R"
    using run [THEN conjunct1] by (simp add: stamp)
  have e1: "map_of (cache ?w1) (generateCacheKey ?c ?j)
      = Some \<lparr>entry_value = ?Rt, expiresAt = clock ?v4 + 15 * 24 * 60 * 60 * 1000\<rparr>"
    by (rule run [THEN conjunct2])
  have e2: "?Rt = stub_result []"
    by (simp add: stamp salary_result_def stub_result_def lit_def)
  have e3: "clock ?v4 + 15 * 24 * 60 * 60 * 1000 = 1296000000"
    using now by simp
  have stored: "map_of (cache ?w1) (generateCacheKey ?c ?j)
      = Some \<lparr>entry_value = stub_result [], expiresAt = 1296000000\<rparr>"
    by (simp only: e1 e2 e3)
  have sent: "requests ?v2 = [CompanySearch (lit ''Google'')]"
    by (simp add: fetch_defs step_defs key_defs stub_defs string_defs fresh_world_def no_delay_def)
  from hit first stored key sent show ?thesis
    by simp
qed

end
